theory Spec2Isabelle
  imports Main
begin

section \<open>Data model of the replay chat completion client\<close>

text \<open>
  The embedded module is \<^verbatim>\<open>_replay_chat_completion_client.py\<close> of
  \<^verbatim>\<open>autogen_ext.models.replay\<close>. Python values that the client stores or passes
  on without ever looking inside them (tools, cancellation tokens, the values of
  \<^verbatim>\<open>extra_create_args\<close>, message or result content that is not a string) are
  values of one type, told apart by their identity only.
\<close>

datatype py_object = PyObject nat

text \<open>
  A Python \<^verbatim>\<open>str\<close> is a \<open>string\<close>, one \<open>char\<close> per code point (code points
  0 to 255). The exception raised by the module is \<^verbatim>\<open>ValueError\<close> with its message;
  \<open>ValidationError\<close> is what the validation of a model info raises.
\<close>

datatype error = ValueError string | ValidationError

type_synonym log = "string list"

text \<open>\<^verbatim>\<open>RequestUsage\<close>: a dataclass of two Python integers.\<close>

record request_usage =
  prompt_tokens :: int
  completion_tokens :: int

text \<open>
  The content of a message or of a result is a string or something else (a list of
  function calls, of images, of execution results).
\<close>

datatype content = Str string | NonStr py_object

text \<open>\<^verbatim>\<open>CreateResult\<close>, with the fields the module reads or writes.\<close>

record create_result =
  finish_reason :: string
  content :: content
  usage :: request_usage
  cached :: bool

text \<open>An entry of \<^verbatim>\<open>chat_completions\<close>: \<^verbatim>\<open>Union[str, CreateResult]\<close>.\<close>

datatype completion = Text string | Prebuilt create_result

text \<open>\<^verbatim>\<open>LLMMessage\<close>: only its \<^verbatim>\<open>content\<close> attribute is read.\<close>

record llm_message =
  msg_content :: content

text \<open>
  \<^verbatim>\<open>ModelInfo\<close> is a dictionary with the five keys the constructor's default
  sets; a dictionary that a caller supplies may lack any of them.
  \<^verbatim>\<open>ModelFamily.UNKNOWN\<close> is a constructor of its own.
\<close>

datatype model_family = UNKNOWN | Family string

record model_info_t =
  vision :: "bool option"
  function_calling :: "bool option"
  json_output :: "bool option"
  family :: "model_family option"
  structured_output :: "bool option"

text \<open>
  The arguments of \<^verbatim>\<open>create\<close> and \<^verbatim>\<open>create_stream\<close>.
  \<^verbatim>\<open>tool_choice\<close> is a tool or one of the literals; the code compares it with the
  string \<^verbatim>\<open>"auto"\<close>.
\<close>

datatype tool_choice_t = Literal string | ToolObject py_object

datatype json_output_t = JsonBool bool | JsonModel py_object

record create_args =
  arg_messages :: "llm_message list"
  arg_tools :: "py_object list"
  arg_tool_choice :: tool_choice_t
  arg_json_output :: "json_output_t option"
  arg_extra_create_args :: "string \<rightharpoonup> py_object"
  arg_cancellation_token :: "py_object option"

text \<open>
  An entry of \<^verbatim>\<open>_create_calls\<close>: the dictionary with the keys
  \<^verbatim>\<open>messages\<close>, \<^verbatim>\<open>tools\<close>, \<^verbatim>\<open>json_output\<close>,
  \<^verbatim>\<open>extra_create_args\<close> and \<^verbatim>\<open>cancellation_token\<close>.
\<close>

record call_entry =
  log_messages :: "llm_message list"
  log_tools :: "py_object list"
  log_json_output :: "json_output_t option"
  log_extra_create_args :: "string \<rightharpoonup> py_object"
  log_cancellation_token :: "py_object option"

text \<open>
  The attributes of \<^verbatim>\<open>ReplayChatCompletionClient\<close>, the leading underscore of the
  private ones dropped. The selectors \<open>total_usage\<close>, \<open>model_info\<close> and
  \<open>create_calls\<close> are at the same time the method and the properties of these names,
  which return the attribute. \<^verbatim>\<open>_current_index\<close> is only ever assigned 0 and
  incremented, so it is a natural number.
\<close>

record client =
  chat_completions :: "completion list"
  provided_message_count :: nat
  model_info :: model_info_t
  total_available_tokens :: int
  cur_usage :: request_usage
  total_usage :: request_usage
  current_index :: nat
  cached_bool_value :: bool
  create_calls :: "call_entry list"

text \<open>\<^verbatim>\<open>ReplayChatCompletionClientConfig\<close>.\<close>

record config =
  cfg_chat_completions :: "completion list"
  cfg_model_info :: "model_info_t option"

section \<open>Tokenization\<close>

text \<open>
  \<^verbatim>\<open>str.isspace\<close> on the code points 0 to 255: tab, line feed, vertical tab, form
  feed, carriage return, the four separators 28 to 31, space, next line (133) and
  no-break space (160).
\<close>

definition isspace :: "char \<Rightarrow> bool" where
  "isspace ch \<longleftrightarrow> ch \<in> {CHR 0x09, CHR 0x0A, CHR 0x0B, CHR 0x0C, CHR 0x0D,
     CHR 0x1C, CHR 0x1D, CHR 0x1E, CHR 0x1F, CHR 0x20, CHR 0x85, CHR 0xA0}"

text \<open>
  \<^verbatim>\<open>str.split()\<close> without arguments: the maximal runs of characters that are not
  whitespace, in order. \<open>split_from s word\<close> scans \<open>s\<close> with the run read so far in
  \<open>word\<close>.
\<close>

fun split_from :: "string \<Rightarrow> string \<Rightarrow> string list" where
  "split_from [] word = (if word = [] then [] else [word])"
| "split_from (ch # s) word =
     (if isspace ch then (if word = [] then split_from s [] else word # split_from s [])
      else split_from s (word @ [ch]))"

definition split :: "string \<Rightarrow> string list" where
  "split s = split_from s []"

definition content_warning :: string where
  "content_warning = ''Token count has been done only on string content''"

definition tool_choice_warning :: string where
  "tool_choice_warning = ''tool_choice parameter specified but is ignored in replay mode''"

text \<open>
  The argument of \<^verbatim>\<open>_tokenize\<close>: a string, one message (an object with a
  \<^verbatim>\<open>content\<close> attribute) or a sequence of messages, tested in this order.
\<close>

datatype tokenize_input = OfStr string | OfMessage llm_message | OfSequence "llm_message list"

text \<open>
  The loop over a sequence of messages, on the accumulators \<^verbatim>\<open>all_tokens\<close> and
  \<^verbatim>\<open>total_tokens\<close> and the warnings sent to the logger.
\<close>

fun tokenize_loop :: "llm_message list \<Rightarrow> string list \<times> int \<times> log \<Rightarrow> string list \<times> int \<times> log" where
  "tokenize_loop [] acc = acc"
| "tokenize_loop (message # rest) (all_tokens, total_tokens, warnings) =
     (case msg_content message of
        Str s \<Rightarrow>
          (let tokens = split s
           in tokenize_loop rest (all_tokens @ tokens, total_tokens + int (length tokens), warnings))
      | NonStr _ \<Rightarrow>
          tokenize_loop rest (all_tokens, total_tokens, warnings @ [content_warning]))"

fun tokenize :: "tokenize_input \<Rightarrow> string list \<times> int \<times> log" where
  "tokenize (OfStr s) = (let tokens = split s in ([] @ tokens, 0 + int (length tokens), []))"
| "tokenize (OfMessage m) =
     (case msg_content m of
        Str s \<Rightarrow> (let tokens = split s in ([] @ tokens, 0 + int (length tokens), []))
      | NonStr _ \<Rightarrow> ([], 0, [content_warning]))"
| "tokenize (OfSequence ms) = tokenize_loop ms ([], 0, [])"

section \<open>The client\<close>

text \<open>
  \<^verbatim>\<open>validate_model_info\<close> is imported from \<^verbatim>\<open>autogen_core.models\<close>; it is
  a parameter of the constructor here: \<open>None\<close> when it returns, the error when it
  raises.
\<close>

definition default_model_info :: model_info_t where
  "default_model_info =
     \<lparr>vision = Some False, function_calling = Some False, json_output = Some False,
      family = Some UNKNOWN, structured_output = Some False\<rparr>"

text \<open>The attributes the constructor sets, for the model info it has settled on.\<close>

definition new_client :: "completion list \<Rightarrow> model_info_t \<Rightarrow> client" where
  "new_client completions info =
     \<lparr>chat_completions = completions,
      provided_message_count = length completions,
      model_info = info,
      total_available_tokens = 10000,
      cur_usage = \<lparr>prompt_tokens = 0, completion_tokens = 0\<rparr>,
      total_usage = \<lparr>prompt_tokens = 0, completion_tokens = 0\<rparr>,
      current_index = 0,
      cached_bool_value = True,
      create_calls = []\<rparr>"

definition init ::
  "(model_info_t \<Rightarrow> error option) \<Rightarrow> completion list \<Rightarrow> model_info_t option \<Rightarrow> error + client" where
  "init validate_model_info completions mi =
     (case mi of
        Some info \<Rightarrow>
          (case validate_model_info info of
             Some e \<Rightarrow> Inl e
           | None \<Rightarrow> Inr (new_client completions info))
      | None \<Rightarrow> Inr (new_client completions default_model_info))"

definition update_total_usage :: "client \<Rightarrow> client" where
  "update_total_usage self =
     (let self1 = self\<lparr>total_usage := (total_usage self)
            \<lparr>completion_tokens :=
               completion_tokens (total_usage self) + completion_tokens (cur_usage self)\<rparr>\<rparr>
      in self1\<lparr>total_usage := (total_usage self1)
            \<lparr>prompt_tokens :=
               prompt_tokens (total_usage self1) + prompt_tokens (cur_usage self1)\<rparr>\<rparr>)"

definition exhausted :: error where
  "exhausted = ValueError ''No more mock responses available''"

definition entry_of :: "create_args \<Rightarrow> call_entry" where
  "entry_of a =
     \<lparr>log_messages = arg_messages a,
      log_tools = arg_tools a,
      log_json_output = arg_json_output a,
      log_extra_create_args = arg_extra_create_args a,
      log_cancellation_token = arg_cancellation_token a\<rparr>"

text \<open>
  \<^verbatim>\<open>create\<close> returns the result or the exception, the client after the call and the
  warnings logged by the call.
\<close>

definition create :: "client \<Rightarrow> create_args \<Rightarrow> (error + create_result) \<times> client \<times> log" where
  "create self a =
     (let warned = (if arg_tool_choice a \<noteq> Literal ''auto'' then [tool_choice_warning] else [])
      in if current_index self \<ge> length (chat_completions self)
         then (Inl exhausted, self, warned)
         else
           (let response = chat_completions self ! current_index self;
                (_, prompt_token_count, warnings) = tokenize (OfSequence (arg_messages a));
                (response1, self1) =
                  (case response of
                     Text s \<Rightarrow>
                       (let (_, output_token_count, _) = tokenize (OfStr s);
                            self' = self\<lparr>cur_usage :=
                              \<lparr>prompt_tokens = prompt_token_count,
                               completion_tokens = output_token_count\<rparr>\<rparr>
                        in (\<lparr>finish_reason = ''stop'', content = Str s,
                             usage = cur_usage self', cached = cached_bool_value self'\<rparr>,
                            self'))
                   | Prebuilt r \<Rightarrow>
                       (r, self\<lparr>cur_usage :=
                              \<lparr>prompt_tokens = prompt_token_count,
                               completion_tokens = completion_tokens (usage r)\<rparr>\<rparr>));
                self2 = update_total_usage self1;
                self3 = self2\<lparr>current_index := current_index self2 + 1\<rparr>;
                self4 = self3\<lparr>create_calls := create_calls self3 @ [entry_of a]\<rparr>
            in (Inr response1, self4, warned @ warnings)))"

text \<open>
  What the generator of \<^verbatim>\<open>create_stream\<close> yields is a string or a result.
\<close>

datatype stream_item = Chunk string | Final create_result

text \<open>
  The loop \<^verbatim>\<open>for i, token in enumerate(output_tokens)\<close>: every token but the last
  is yielded with a space appended.
\<close>

definition stream_chunks :: "string list \<Rightarrow> string list" where
  "stream_chunks output_tokens =
     map (\<lambda>(i, token). if int i < int (length output_tokens) - 1 then token @ '' '' else token)
       (enumerate 0 output_tokens)"

text \<open>
  \<^verbatim>\<open>create_stream\<close>, the generator driven to its end by one consumer (as
  \<^verbatim>\<open>async for\<close> does): the items yielded in order, the client after the
  generator has returned, and the warnings logged. When the responses are used up the
  first pull raises and nothing is yielded.
\<close>

definition create_stream ::
  "client \<Rightarrow> create_args \<Rightarrow> (error + stream_item list) \<times> client \<times> log" where
  "create_stream self a =
     (let warned = (if arg_tool_choice a \<noteq> Literal ''auto'' then [tool_choice_warning] else [])
      in if current_index self \<ge> length (chat_completions self)
         then (Inl exhausted, self, warned)
         else
           (let response = chat_completions self ! current_index self;
                (_, prompt_token_count, warnings) = tokenize (OfSequence (arg_messages a));
                (yielded, self2) =
                  (case response of
                     Text s \<Rightarrow>
                       (let (output_tokens, output_token_count, _) = tokenize (OfStr s);
                            self1 = self\<lparr>cur_usage :=
                              \<lparr>prompt_tokens = prompt_token_count,
                               completion_tokens = output_token_count\<rparr>\<rparr>
                        in (map Chunk (stream_chunks output_tokens) @
                              [Final \<lparr>finish_reason = ''stop'', content = Str s,
                                      usage = cur_usage self1, cached = cached_bool_value self1\<rparr>],
                            update_total_usage self1))
                   | Prebuilt r \<Rightarrow>
                       (let self1 = self\<lparr>cur_usage :=
                              \<lparr>prompt_tokens = prompt_token_count,
                               completion_tokens = completion_tokens (usage r)\<rparr>\<rparr>
                        in ([Final r], update_total_usage self1)));
                self3 = self2\<lparr>current_index := current_index self2 + 1\<rparr>
            in (Inr yielded, self3, warned @ warnings)))"

definition actual_usage :: "client \<Rightarrow> request_usage" where
  "actual_usage self = cur_usage self"

definition count_tokens :: "client \<Rightarrow> llm_message list \<Rightarrow> py_object list \<Rightarrow> int" where
  "count_tokens self messages tools =
     (let (_, token_count, _) = tokenize (OfSequence messages) in token_count)"

definition remaining_tokens :: "client \<Rightarrow> llm_message list \<Rightarrow> py_object list \<Rightarrow> int" where
  "remaining_tokens self messages tools =
     max 0 (total_available_tokens self - prompt_tokens (total_usage self)
              - completion_tokens (total_usage self))"

definition set_cached_bool_value :: "client \<Rightarrow> bool \<Rightarrow> client" where
  "set_cached_bool_value self v = self\<lparr>cached_bool_value := v\<rparr>"

definition reset :: "client \<Rightarrow> client" where
  "reset self =
     self\<lparr>cur_usage := \<lparr>prompt_tokens = 0, completion_tokens = 0\<rparr>,
          total_usage := \<lparr>prompt_tokens = 0, completion_tokens = 0\<rparr>,
          current_index := 0\<rparr>"

definition to_config :: "client \<Rightarrow> config" where
  "to_config self =
     \<lparr>cfg_chat_completions = chat_completions self, cfg_model_info = Some (model_info self)\<rparr>"

definition from_config :: "(model_info_t \<Rightarrow> error option) \<Rightarrow> config \<Rightarrow> error + client" where
  "from_config validate_model_info cfg =
     init validate_model_info (cfg_chat_completions cfg) (cfg_model_info cfg)"

text \<open>
  Modelled from the spec: \<^verbatim>\<open>validate_model_info\<close> of
  \<^verbatim>\<open>autogen_core.models\<close> is not part of the module. The spec has the
  constructor validate a descriptor that is supplied and fail with a validation error
  when the descriptor is internally inconsistent, and it gives the descriptor five
  parts: the vision, function-calling, JSON-output and structured-output flags and the
  model family tag. The validation modelled here raises on a descriptor that lacks one
  of the five parts and returns on every other.
\<close>

definition validate_model_info :: "model_info_t \<Rightarrow> error option" where
  "validate_model_info info =
     (if vision info = None \<or> function_calling info = None \<or> json_output info = None
         \<or> family info = None \<or> structured_output info = None
      then Some ValidationError else None)"

section \<open>Sequences of requests\<close>

text \<open>
  A request is a call of \<^verbatim>\<open>create\<close> or a fully consumed \<^verbatim>\<open>create_stream\<close>.
  \<open>trace\<close> performs a list of requests one after the other, whether they fail or not,
  and gives for each its outcome and the client right after it; \<open>outcomes\<close> keeps
  the outcomes and \<open>run\<close> the client after the last request.
\<close>

datatype call = Create create_args | CreateStream create_args

datatype reply = Completion create_result | Streamed "stream_item list"

fun perform :: "client \<Rightarrow> call \<Rightarrow> (error + reply) \<times> client" where
  "perform self (Create a) =
     (map_sum id Completion (fst (create self a)), fst (snd (create self a)))"
| "perform self (CreateStream a) =
     (map_sum id Streamed (fst (create_stream self a)), fst (snd (create_stream self a)))"

fun trace :: "client \<Rightarrow> call list \<Rightarrow> ((error + reply) \<times> client) list" where
  "trace self [] = []"
| "trace self (k # ks) = (let (r, self') = perform self k in (r, self') # trace self' ks)"

definition outcomes :: "client \<Rightarrow> call list \<Rightarrow> (error + reply) list" where
  "outcomes self ks = map fst (trace self ks)"

fun run :: "client \<Rightarrow> call list \<Rightarrow> client" where
  "run self [] = self"
| "run self (k # ks) = run (snd (perform self k)) ks"

text \<open>
  What can be done with a client after its construction: a request,
  \<^verbatim>\<open>reset()\<close> and \<^verbatim>\<open>set_cached_bool_value(value)\<close>. \<open>acts\<close> gives the
  client after a list of these.
\<close>

datatype action = Request call | Reset | SetCachedBoolValue bool

fun act :: "client \<Rightarrow> action \<Rightarrow> client" where
  "act self (Request k) = snd (perform self k)"
| "act self Reset = reset self"
| "act self (SetCachedBoolValue v) = set_cached_bool_value self v"

fun acts :: "client \<Rightarrow> action list \<Rightarrow> client" where
  "acts self [] = self"
| "acts self (x # xs) = acts (act self x) xs"

text \<open>
  \<^verbatim>\<open>actual_usage()\<close> read right after each request that completed.
\<close>

fun usage_snapshots :: "client \<Rightarrow> call list \<Rightarrow> request_usage list" where
  "usage_snapshots self [] = []"
| "usage_snapshots self (k # ks) =
     (case perform self k of
        (Inr _, self') \<Rightarrow> actual_usage self' # usage_snapshots self' ks
      | (Inl _, self') \<Rightarrow> usage_snapshots self' ks)"

section \<open>Observations used in the statements\<close>

text \<open>The token count \<^verbatim>\<open>_tokenize(messages)\<close> returns for the messages of a call.\<close>

definition prompt_count :: "create_args \<Rightarrow> int" where
  "prompt_count a = fst (snd (tokenize (OfSequence (arg_messages a))))"

text \<open>The strings and the result records among the items of a stream, in order.\<close>

fun chunks_of :: "stream_item list \<Rightarrow> string list" where
  "chunks_of [] = []"
| "chunks_of (Chunk s # items) = s # chunks_of items"
| "chunks_of (Final r # items) = chunks_of items"

fun results_of :: "stream_item list \<Rightarrow> create_result list" where
  "results_of [] = []"
| "results_of (Chunk s # items) = results_of items"
| "results_of (Final r # items) = r # results_of items"

text \<open>
  The contents a request returned: of the result of \<^verbatim>\<open>create\<close>, of the result
  records of a stream; the error of a request that failed.
\<close>

fun contents_of :: "error + reply \<Rightarrow> error + content list" where
  "contents_of (Inl e) = Inl e"
| "contents_of (Inr (Completion r)) = Inr [content r]"
| "contents_of (Inr (Streamed items)) = Inr (map content (results_of items))"

text \<open>The content a canned response stands for.\<close>

fun entry_content :: "completion \<Rightarrow> content" where
  "entry_content (Text s) = Str s"
| "entry_content (Prebuilt r) = content r"

text \<open>The string contents of a sequence of messages, in order.\<close>

fun str_contents :: "llm_message list \<Rightarrow> string list" where
  "str_contents [] = []"
| "str_contents (m # ms) =
     (case msg_content m of Str s \<Rightarrow> s # str_contents ms | NonStr _ \<Rightarrow> str_contents ms)"

text \<open>\<^verbatim>\<open>" ".join(words)\<close>.\<close>

fun join_spaces :: "string list \<Rightarrow> string" where
  "join_spaces [] = []"
| "join_spaces [w] = w"
| "join_spaces (w # ws) = w @ '' '' @ join_spaces ws"

text \<open>
  Inputs of the examples: a message with string content, and a call that passes only
  \<^verbatim>\<open>messages\<close>, the other parameters at their defaults.
\<close>

definition user_message :: "string \<Rightarrow> llm_message" where
  "user_message s = \<lparr>msg_content = Str s\<rparr>"

definition default_args :: "llm_message list \<Rightarrow> create_args" where
  "default_args messages =
     \<lparr>arg_messages = messages, arg_tools = [], arg_tool_choice = Literal ''auto'',
      arg_json_output = None, arg_extra_create_args = Map.empty,
      arg_cancellation_token = None\<rparr>"

section \<open>Closed forms of one request\<close>

lemma tokenize_OfStr: "tokenize (OfStr s) = (split s, int (length (split s)), [])"
  by (simp add: Let_def)

lemma create_exhausted:
  "length (chat_completions c) \<le> current_index c \<Longrightarrow>
   fst (create c a) = Inl exhausted \<and> fst (snd (create c a)) = c"
  by (simp add: create_def)

lemma create_stream_exhausted:
  "length (chat_completions c) \<le> current_index c \<Longrightarrow>
   fst (create_stream c a) = Inl exhausted \<and> fst (snd (create_stream c a)) = c"
  by (simp add: create_stream_def)

lemma create_Text:
  assumes "current_index c < length (chat_completions c)"
    and "chat_completions c ! current_index c = Text s"
  shows "fst (create c a) =
           Inr \<lparr>finish_reason = ''stop'', content = Str s,
                usage = \<lparr>prompt_tokens = prompt_count a,
                          completion_tokens = int (length (split s))\<rparr>,
                cached = cached_bool_value c\<rparr>"
    and "fst (snd (create c a)) =
           c\<lparr>cur_usage := \<lparr>prompt_tokens = prompt_count a,
                            completion_tokens = int (length (split s))\<rparr>,
             total_usage :=
               \<lparr>prompt_tokens = prompt_tokens (total_usage c) + prompt_count a,
                completion_tokens = completion_tokens (total_usage c) + int (length (split s))\<rparr>,
             current_index := Suc (current_index c),
             create_calls := create_calls c @ [entry_of a]\<rparr>"
  using assms
  by (simp_all add: create_def prompt_count_def update_total_usage_def Let_def
        split: prod.splits)

lemma create_Prebuilt:
  assumes "current_index c < length (chat_completions c)"
    and "chat_completions c ! current_index c = Prebuilt r"
  shows "fst (create c a) = Inr r"
    and "fst (snd (create c a)) =
           c\<lparr>cur_usage := \<lparr>prompt_tokens = prompt_count a,
                            completion_tokens = completion_tokens (usage r)\<rparr>,
             total_usage :=
               \<lparr>prompt_tokens = prompt_tokens (total_usage c) + prompt_count a,
                completion_tokens =
                  completion_tokens (total_usage c) + completion_tokens (usage r)\<rparr>,
             current_index := Suc (current_index c),
             create_calls := create_calls c @ [entry_of a]\<rparr>"
  using assms
  by (simp_all add: create_def prompt_count_def update_total_usage_def Let_def
        split: prod.splits)

lemma create_stream_Text:
  assumes "current_index c < length (chat_completions c)"
    and "chat_completions c ! current_index c = Text s"
  shows "fst (create_stream c a) =
           Inr (map Chunk (stream_chunks (split s)) @
                [Final \<lparr>finish_reason = ''stop'', content = Str s,
                  usage = \<lparr>prompt_tokens = prompt_count a,
                            completion_tokens = int (length (split s))\<rparr>,
                  cached = cached_bool_value c\<rparr>])"
    and "fst (snd (create_stream c a)) =
           c\<lparr>cur_usage := \<lparr>prompt_tokens = prompt_count a,
                            completion_tokens = int (length (split s))\<rparr>,
             total_usage :=
               \<lparr>prompt_tokens = prompt_tokens (total_usage c) + prompt_count a,
                completion_tokens = completion_tokens (total_usage c) + int (length (split s))\<rparr>,
             current_index := Suc (current_index c)\<rparr>"
  using assms
  by (simp_all add: create_stream_def prompt_count_def update_total_usage_def Let_def
        split: prod.splits)

lemma create_stream_Prebuilt:
  assumes "current_index c < length (chat_completions c)"
    and "chat_completions c ! current_index c = Prebuilt r"
  shows "fst (create_stream c a) = Inr [Final r]"
    and "fst (snd (create_stream c a)) =
           c\<lparr>cur_usage := \<lparr>prompt_tokens = prompt_count a,
                            completion_tokens = completion_tokens (usage r)\<rparr>,
             total_usage :=
               \<lparr>prompt_tokens = prompt_tokens (total_usage c) + prompt_count a,
                completion_tokens =
                  completion_tokens (total_usage c) + completion_tokens (usage r)\<rparr>,
             current_index := Suc (current_index c)\<rparr>"
  using assms
  by (simp_all add: create_stream_def prompt_count_def update_total_usage_def Let_def
        split: prod.splits)

lemma create_failure:
  "fst (create c a) = Inl e \<Longrightarrow>
   e = exhausted \<and> length (chat_completions c) \<le> current_index c \<and> fst (snd (create c a)) = c"
  by (auto simp: create_def Let_def split: if_splits prod.splits completion.splits)

lemma create_stream_failure:
  "fst (create_stream c a) = Inl e \<Longrightarrow>
   e = exhausted \<and> length (chat_completions c) \<le> current_index c
     \<and> fst (snd (create_stream c a)) = c"
  by (auto simp: create_stream_def Let_def split: if_splits prod.splits completion.splits)

section \<open>Evaluations on the inputs of the examples\<close>

lemma split_Hello_there: "split ''Hello there'' = [''Hello'', ''there'']"
  by (simp add: split_def isspace_def)

lemma split_Bye: "split ''Bye'' = [''Bye'']"
  by (simp add: split_def isspace_def)

lemma prompt_count_a_b_c: "prompt_count (default_args [user_message ''a b c'']) = 3"
  by (simp add: prompt_count_def default_args_def user_message_def split_def isspace_def)

lemma count_tokens_prompt_count: "count_tokens c (arg_messages a) tools = prompt_count a"
  by (simp add: count_tokens_def prompt_count_def split: prod.splits)

lemma hello_bye_twice:
  "run (new_client [Text ''Hello there'', Text ''Bye''] default_model_info)
     [Create (default_args [user_message ''a b c'']),
      Create (default_args [user_message ''a b c''])] =
   \<lparr>chat_completions = [Text ''Hello there'', Text ''Bye''],
    provided_message_count = 2,
    model_info = default_model_info,
    total_available_tokens = 10000,
    cur_usage = \<lparr>prompt_tokens = 3, completion_tokens = 1\<rparr>,
    total_usage = \<lparr>prompt_tokens = 6, completion_tokens = 3\<rparr>,
    current_index = 2,
    cached_bool_value = True,
    create_calls = [entry_of (default_args [user_message ''a b c'']),
                    entry_of (default_args [user_message ''a b c''])]\<rparr>"
proof -
  let ?a = "default_args [user_message ''a b c'']"
  let ?c0 = "new_client [Text ''Hello there'', Text ''Bye''] default_model_info"
  have one: "fst (snd (create ?c0 ?a)) =
    \<lparr>chat_completions = [Text ''Hello there'', Text ''Bye''],
     provided_message_count = 2,
     model_info = default_model_info,
     total_available_tokens = 10000,
     cur_usage = \<lparr>prompt_tokens = 3, completion_tokens = 2\<rparr>,
     total_usage = \<lparr>prompt_tokens = 3, completion_tokens = 2\<rparr>,
     current_index = 1,
     cached_bool_value = True,
     create_calls = [entry_of ?a]\<rparr>"
    using create_Text(2) [of ?c0 "''Hello there''" ?a]
    by (simp add: new_client_def split_Hello_there prompt_count_a_b_c)
  have two: "fst (snd (create (fst (snd (create ?c0 ?a))) ?a)) =
    \<lparr>chat_completions = [Text ''Hello there'', Text ''Bye''],
     provided_message_count = 2,
     model_info = default_model_info,
     total_available_tokens = 10000,
     cur_usage = \<lparr>prompt_tokens = 3, completion_tokens = 1\<rparr>,
     total_usage = \<lparr>prompt_tokens = 6, completion_tokens = 3\<rparr>,
     current_index = 2,
     cached_bool_value = True,
     create_calls = [entry_of ?a, entry_of ?a]\<rparr>"
    unfolding one
    using create_Text(2) [of "\<lparr>chat_completions = [Text ''Hello there'', Text ''Bye''],
     provided_message_count = 2,
     model_info = default_model_info,
     total_available_tokens = 10000,
     cur_usage = \<lparr>prompt_tokens = 3, completion_tokens = 2\<rparr>,
     total_usage = \<lparr>prompt_tokens = 3, completion_tokens = 2\<rparr>,
     current_index = 1,
     cached_bool_value = True,
     create_calls = [entry_of ?a]\<rparr>" "''Bye''" ?a]
    by (simp add: split_Bye prompt_count_a_b_c)
  show ?thesis using two by simp
qed

section \<open>Requests on a client whose responses are used up\<close>

text \<open>
  Claim C10. On a client whose cursor equals the number of canned responses, both
  \<^verbatim>\<open>create\<close> and a pull on \<^verbatim>\<open>create_stream\<close> raise
  \<^verbatim>\<open>ValueError("No more mock responses available")\<close>, and the client after
  the failed call is the client before it: cursor, current usage, total usage, cached
  flag, call log and every other attribute.
\<close>
theorem exhausted_call_leaves_client_unchanged:
  assumes "current_index c = length (chat_completions c)"
  shows "fst (create c a) = Inl (ValueError ''No more mock responses available'')
       \<and> fst (snd (create c a)) = c
       \<and> fst (create_stream c a) = Inl (ValueError ''No more mock responses available'')
       \<and> fst (snd (create_stream c a)) = c"
  using assms create_exhausted [of c a] create_stream_exhausted [of c a]
  by (simp add: exhausted_def)

text \<open>
  An instance: the client that has served both of its two responses through
  \<^verbatim>\<open>create\<close> and has had its cached flag set to false. Its cursor, its
  counters, its flag and its call log all differ from those of a new client, and all
  are kept by the failing calls.
\<close>

theorem exhausted_call_leaves_client_unchanged_witness:
  "current_index (set_cached_bool_value
          (run (new_client [Text ''Hello there'', Text ''Bye''] default_model_info)
            [Create (default_args [user_message ''a b c'']),
             Create (default_args [user_message ''a b c''])]) False)
     = length (chat_completions (set_cached_bool_value
          (run (new_client [Text ''Hello there'', Text ''Bye''] default_model_info)
            [Create (default_args [user_message ''a b c'']),
             Create (default_args [user_message ''a b c''])]) False))
   \<and> fst (create (set_cached_bool_value
          (run (new_client [Text ''Hello there'', Text ''Bye''] default_model_info)
            [Create (default_args [user_message ''a b c'']),
             Create (default_args [user_message ''a b c''])]) False) (default_args [user_message ''hi'']))
       = Inl (ValueError ''No more mock responses available'')
   \<and> fst (snd (create (set_cached_bool_value
          (run (new_client [Text ''Hello there'', Text ''Bye''] default_model_info)
            [Create (default_args [user_message ''a b c'']),
             Create (default_args [user_message ''a b c''])]) False) (default_args [user_message ''hi'']))) =
         \<lparr>chat_completions = [Text ''Hello there'', Text ''Bye''],
          provided_message_count = 2,
          model_info = default_model_info,
          total_available_tokens = 10000,
          cur_usage = \<lparr>prompt_tokens = 3, completion_tokens = 1\<rparr>,
          total_usage = \<lparr>prompt_tokens = 6, completion_tokens = 3\<rparr>,
          current_index = 2,
          cached_bool_value = False,
          create_calls = [entry_of (default_args [user_message ''a b c'']),
                          entry_of (default_args [user_message ''a b c''])]\<rparr>
   \<and> fst (create_stream (set_cached_bool_value
          (run (new_client [Text ''Hello there'', Text ''Bye''] default_model_info)
            [Create (default_args [user_message ''a b c'']),
             Create (default_args [user_message ''a b c''])]) False) (default_args [user_message ''hi'']))
       = Inl (ValueError ''No more mock responses available'')
   \<and> fst (snd (create_stream (set_cached_bool_value
          (run (new_client [Text ''Hello there'', Text ''Bye''] default_model_info)
            [Create (default_args [user_message ''a b c'']),
             Create (default_args [user_message ''a b c''])]) False) (default_args [user_message ''hi'']))) =
         \<lparr>chat_completions = [Text ''Hello there'', Text ''Bye''],
          provided_message_count = 2,
          model_info = default_model_info,
          total_available_tokens = 10000,
          cur_usage = \<lparr>prompt_tokens = 3, completion_tokens = 1\<rparr>,
          total_usage = \<lparr>prompt_tokens = 6, completion_tokens = 3\<rparr>,
          current_index = 2,
          cached_bool_value = False,
          create_calls = [entry_of (default_args [user_message ''a b c'']),
                          entry_of (default_args [user_message ''a b c''])]\<rparr>"
  using exhausted_call_leaves_client_unchanged
    [of "(set_cached_bool_value
          (run (new_client [Text ''Hello there'', Text ''Bye''] default_model_info)
            [Create (default_args [user_message ''a b c'']),
             Create (default_args [user_message ''a b c''])]) False)" "default_args [user_message ''hi'']"]
  unfolding hello_bye_twice
  by (simp add: set_cached_bool_value_def)

section \<open>A raw-text entry served by create\<close>

text \<open>
  Claim C6. When the entry at the cursor is raw text, \<^verbatim>\<open>create\<close> returns a
  result with finish reason \<^verbatim>\<open>"stop"\<close>, the text as content, as completion
  tokens the number of whitespace-split pieces of the text, as prompt tokens the count
  \<^verbatim>\<open>_tokenize\<close> gives for the messages of the call, and the current cached flag.
  On the responses \<^verbatim>\<open>["Hello there", "Bye"]\<close> the first call returns
  \<^verbatim>\<open>"Hello there"\<close> with 2 completion tokens and the second
  \<^verbatim>\<open>"Bye"\<close> with 1, whatever the arguments of the two calls.
\<close>

theorem create_text_entry:
  "(current_index c < length (chat_completions c)
      \<and> chat_completions c ! current_index c = Text s \<longrightarrow>
    fst (create c a) =
      Inr \<lparr>finish_reason = ''stop'', content = Str s,
           usage = \<lparr>prompt_tokens = prompt_count a,
                     completion_tokens = int (length (split s))\<rparr>,
           cached = cached_bool_value c\<rparr>)
   \<and> fst (create (new_client [Text ''Hello there'', Text ''Bye''] info) a1) =
      Inr \<lparr>finish_reason = ''stop'', content = Str ''Hello there'',
           usage = \<lparr>prompt_tokens = prompt_count a1, completion_tokens = 2\<rparr>,
           cached = True\<rparr>
   \<and> fst (create (fst (snd (create (new_client [Text ''Hello there'', Text ''Bye''] info) a1))) a2) =
      Inr \<lparr>finish_reason = ''stop'', content = Str ''Bye'',
           usage = \<lparr>prompt_tokens = prompt_count a2, completion_tokens = 1\<rparr>,
           cached = True\<rparr>"
proof -
  let ?c0 = "new_client [Text ''Hello there'', Text ''Bye''] info"
  have general: "fst (create c a) =
      Inr \<lparr>finish_reason = ''stop'', content = Str s,
           usage = \<lparr>prompt_tokens = prompt_count a,
                     completion_tokens = int (length (split s))\<rparr>,
           cached = cached_bool_value c\<rparr>"
    if "current_index c < length (chat_completions c)"
      and "chat_completions c ! current_index c = Text s"
    using that create_Text(1) [of c s a] by simp
  have first: "fst (create ?c0 a1) =
      Inr \<lparr>finish_reason = ''stop'', content = Str ''Hello there'',
           usage = \<lparr>prompt_tokens = prompt_count a1, completion_tokens = 2\<rparr>,
           cached = True\<rparr>"
    using create_Text(1) [of ?c0 "''Hello there''" a1]
    by (simp add: new_client_def split_Hello_there)
  have state: "current_index (fst (snd (create ?c0 a1))) = 1
      \<and> chat_completions (fst (snd (create ?c0 a1))) = [Text ''Hello there'', Text ''Bye'']
      \<and> cached_bool_value (fst (snd (create ?c0 a1)))"
    using create_Text(2) [of ?c0 "''Hello there''" a1]
    by (simp add: new_client_def)
  have second: "fst (create (fst (snd (create ?c0 a1))) a2) =
      Inr \<lparr>finish_reason = ''stop'', content = Str ''Bye'',
           usage = \<lparr>prompt_tokens = prompt_count a2, completion_tokens = 1\<rparr>,
           cached = True\<rparr>"
    using state create_Text(1) [of "fst (snd (create ?c0 a1))" "''Bye''" a2]
    by (simp add: split_Bye)
  from general first second show ?thesis by blast
qed

theorem create_text_entry_witness:
  "current_index (new_client [Text ''Hello there'', Text ''Bye''] default_model_info)
     < length (chat_completions (new_client [Text ''Hello there'', Text ''Bye''] default_model_info))
   \<and> chat_completions (new_client [Text ''Hello there'', Text ''Bye''] default_model_info)
       ! current_index (new_client [Text ''Hello there'', Text ''Bye''] default_model_info)
     = Text ''Hello there''
   \<and> fst (create (new_client [Text ''Hello there'', Text ''Bye''] default_model_info)
        (default_args [user_message ''a b c''])) =
      Inr \<lparr>finish_reason = ''stop'', content = Str ''Hello there'',
           usage = \<lparr>prompt_tokens = 3, completion_tokens = 2\<rparr>,
           cached = True\<rparr>"
  using create_text_entry
    [of "new_client [Text ''Hello there'', Text ''Bye''] default_model_info" "''Hello there''"
        "default_args [user_message ''a b c'']"]
  by (simp add: new_client_def split_Hello_there prompt_count_a_b_c)

section \<open>A pre-built entry served by create\<close>

text \<open>
  Claim C1, as the code has it. When the entry at index 0 is a pre-built result whose
  usage has 7 completion tokens and the cursor is at 0, \<^verbatim>\<open>create\<close> with
  messages of 3 tokens returns that very record, its usage as stored in it, and the
  current usage of the client (\<^verbatim>\<open>actual_usage()\<close>) after the call has 3
  prompt tokens, counted on the messages of the call, and the 7 completion tokens of
  the record.
\<close>

theorem create_prebuilt_entry:
  assumes "current_index c = 0"
    and "chat_completions c = Prebuilt r # rest"
    and "completion_tokens (usage r) = 7"
    and "prompt_count a = 3"
  shows "fst (create c a) = Inr r
       \<and> actual_usage (fst (snd (create c a))) = \<lparr>prompt_tokens = 3, completion_tokens = 7\<rparr>"
  using assms create_Prebuilt [of c r a]
  by (simp add: actual_usage_def)

theorem create_prebuilt_entry_witness:
  "current_index (new_client [Prebuilt \<lparr>finish_reason = ''stop'', content = Str ''ok'',
        usage = \<lparr>prompt_tokens = 0, completion_tokens = 7\<rparr>, cached = False\<rparr>] default_model_info) = 0
   \<and> chat_completions (new_client [Prebuilt \<lparr>finish_reason = ''stop'', content = Str ''ok'',
        usage = \<lparr>prompt_tokens = 0, completion_tokens = 7\<rparr>, cached = False\<rparr>] default_model_info)
      = Prebuilt \<lparr>finish_reason = ''stop'', content = Str ''ok'',
        usage = \<lparr>prompt_tokens = 0, completion_tokens = 7\<rparr>, cached = False\<rparr> # []
   \<and> completion_tokens (usage \<lparr>finish_reason = ''stop'', content = Str ''ok'',
        usage = \<lparr>prompt_tokens = 0, completion_tokens = 7\<rparr>, cached = False\<rparr>) = 7
   \<and> prompt_count (default_args [user_message ''a b c'']) = 3
   \<and> fst (create (new_client [Prebuilt \<lparr>finish_reason = ''stop'', content = Str ''ok'',
        usage = \<lparr>prompt_tokens = 0, completion_tokens = 7\<rparr>, cached = False\<rparr>] default_model_info)
        (default_args [user_message ''a b c'']))
      = Inr \<lparr>finish_reason = ''stop'', content = Str ''ok'',
        usage = \<lparr>prompt_tokens = 0, completion_tokens = 7\<rparr>, cached = False\<rparr>
   \<and> actual_usage (fst (snd (create (new_client [Prebuilt \<lparr>finish_reason = ''stop'', content = Str ''ok'',
        usage = \<lparr>prompt_tokens = 0, completion_tokens = 7\<rparr>, cached = False\<rparr>] default_model_info)
        (default_args [user_message ''a b c'']))))
      = \<lparr>prompt_tokens = 3, completion_tokens = 7\<rparr>"
  using create_prebuilt_entry
    [of "new_client [Prebuilt \<lparr>finish_reason = ''stop'', content = Str ''ok'',
        usage = \<lparr>prompt_tokens = 0, completion_tokens = 7\<rparr>, cached = False\<rparr>] default_model_info"
      "\<lparr>finish_reason = ''stop'', content = Str ''ok'',
        usage = \<lparr>prompt_tokens = 0, completion_tokens = 7\<rparr>, cached = False\<rparr>" "[]"
      "default_args [user_message ''a b c'']"]
  by (simp add: new_client_def prompt_count_a_b_c)

text \<open>
  The returned record does not carry the recomputed prompt tokens: a canned record
  stored with 0 prompt tokens comes back with 0, on messages of 3 tokens.
\<close>

theorem create_prebuilt_entry_counterexample:
  "prompt_count (default_args [user_message ''a b c'']) = 3
   \<and> fst (create (new_client [Prebuilt \<lparr>finish_reason = ''stop'', content = Str ''ok'',
        usage = \<lparr>prompt_tokens = 0, completion_tokens = 7\<rparr>, cached = False\<rparr>] default_model_info)
        (default_args [user_message ''a b c'']))
      = Inr \<lparr>finish_reason = ''stop'', content = Str ''ok'',
        usage = \<lparr>prompt_tokens = 0, completion_tokens = 7\<rparr>, cached = False\<rparr>
   \<and> prompt_tokens (usage \<lparr>finish_reason = ''stop'', content = Str ''ok'',
        usage = \<lparr>prompt_tokens = 0, completion_tokens = 7\<rparr>, cached = False\<rparr>) \<noteq> 3"
  by (simp add: prompt_count_a_b_c create_def new_client_def Let_def split: prod.splits)

section \<open>Reset\<close>

text \<open>
  Claim C7. \<^verbatim>\<open>reset()\<close> sets the current and the total usage to zero and the
  cursor to 0 and leaves the call log, the list of canned responses, the cached flag
  and the model info as they were; \<^verbatim>\<open>total_usage()\<close> then returns
  \<open>{0, 0}\<close>, and when the list is not empty the next \<^verbatim>\<open>create\<close> serves the
  entry at index 0 (the result built on the text of a raw-text entry, the record of a
  pre-built one) and moves the cursor to 1.
\<close>

theorem reset_zeroes_usage_and_cursor:
  "actual_usage (reset c) = \<lparr>prompt_tokens = 0, completion_tokens = 0\<rparr>
   \<and> total_usage (reset c) = \<lparr>prompt_tokens = 0, completion_tokens = 0\<rparr>
   \<and> current_index (reset c) = 0
   \<and> create_calls (reset c) = create_calls c
   \<and> chat_completions (reset c) = chat_completions c
   \<and> cached_bool_value (reset c) = cached_bool_value c
   \<and> model_info (reset c) = model_info c
   \<and> (chat_completions c \<noteq> [] \<longrightarrow>
        fst (create (reset c) a) =
          Inr (case chat_completions c ! 0 of
                 Text s \<Rightarrow>
                   \<lparr>finish_reason = ''stop'', content = Str s,
                    usage = \<lparr>prompt_tokens = prompt_count a,
                              completion_tokens = int (length (split s))\<rparr>,
                    cached = cached_bool_value c\<rparr>
               | Prebuilt r \<Rightarrow> r)
        \<and> current_index (fst (snd (create (reset c) a))) = 1)"
proof -
  have frame: "reset c = c\<lparr>cur_usage := \<lparr>prompt_tokens = 0, completion_tokens = 0\<rparr>,
              total_usage := \<lparr>prompt_tokens = 0, completion_tokens = 0\<rparr>,
              current_index := 0\<rparr>"
    by (simp add: reset_def)
  have serve: "fst (create (reset c) a) =
          Inr (case chat_completions c ! 0 of
                 Text s \<Rightarrow>
                   \<lparr>finish_reason = ''stop'', content = Str s,
                    usage = \<lparr>prompt_tokens = prompt_count a,
                              completion_tokens = int (length (split s))\<rparr>,
                    cached = cached_bool_value c\<rparr>
               | Prebuilt r \<Rightarrow> r)
        \<and> current_index (fst (snd (create (reset c) a))) = 1"
    if "chat_completions c \<noteq> []"
  proof (cases "chat_completions c ! 0")
    case (Text s)
    with that create_Text [of "reset c" s a] show ?thesis
      by (simp add: reset_def)
  next
    case (Prebuilt r)
    with that create_Prebuilt [of "reset c" r a] show ?thesis
      by (simp add: reset_def)
  qed
  from serve show ?thesis
    by (simp add: actual_usage_def frame)
qed

theorem reset_zeroes_usage_and_cursor_witness:
  "completion_tokens (total_usage (run (new_client [Text ''Hello there'', Text ''Bye''] default_model_info)
       [Create (default_args [user_message ''a b c'']),
        Create (default_args [user_message ''a b c''])])) = 3
   \<and> chat_completions (run (new_client [Text ''Hello there'', Text ''Bye''] default_model_info)
       [Create (default_args [user_message ''a b c'']),
        Create (default_args [user_message ''a b c''])]) \<noteq> []
   \<and> total_usage (reset (run (new_client [Text ''Hello there'', Text ''Bye''] default_model_info)
       [Create (default_args [user_message ''a b c'']),
        Create (default_args [user_message ''a b c''])]))
       = \<lparr>prompt_tokens = 0, completion_tokens = 0\<rparr>
   \<and> length (create_calls (reset (run (new_client [Text ''Hello there'', Text ''Bye''] default_model_info)
       [Create (default_args [user_message ''a b c'']),
        Create (default_args [user_message ''a b c''])]))) = 2
   \<and> fst (create (reset (run (new_client [Text ''Hello there'', Text ''Bye''] default_model_info)
       [Create (default_args [user_message ''a b c'']),
        Create (default_args [user_message ''a b c''])])) (default_args [user_message ''a b c'']))
       = Inr \<lparr>finish_reason = ''stop'', content = Str ''Hello there'',
              usage = \<lparr>prompt_tokens = 3, completion_tokens = 2\<rparr>, cached = True\<rparr>"
  using reset_zeroes_usage_and_cursor
    [of "run (new_client [Text ''Hello there'', Text ''Bye''] default_model_info)
       [Create (default_args [user_message ''a b c'']),
        Create (default_args [user_message ''a b c''])]" "default_args [user_message ''a b c'']"]
  unfolding hello_bye_twice
  by (simp add: split_Hello_there prompt_count_a_b_c)

section \<open>The call log\<close>

lemma run_create_calls: "\<exists>es. create_calls (run c ks) = create_calls c @ es"
proof (induction ks arbitrary: c)
  case Nil
  show ?case by simp
next
  case (Cons k ks)
  have step: "\<exists>es. create_calls (snd (perform c k)) = create_calls c @ es"
  proof (cases k)
    case (Create a)
    show ?thesis
    proof (cases "current_index c < length (chat_completions c)")
      case True
      then show ?thesis
        using Create create_Text(2) [of c _ a] create_Prebuilt(2) [of c _ a]
        by (cases "chat_completions c ! current_index c") simp_all
    next
      case False
      then show ?thesis
        using Create create_exhausted [of c a] by simp
    qed
  next
    case (CreateStream a)
    show ?thesis
    proof (cases "current_index c < length (chat_completions c)")
      case True
      then show ?thesis
        using CreateStream create_stream_Text(2) [of c _ a] create_stream_Prebuilt(2) [of c _ a]
        by (cases "chat_completions c ! current_index c") simp_all
    next
      case False
      then show ?thesis
        using CreateStream create_stream_exhausted [of c a] by simp
    qed
  qed
  then obtain es where es: "create_calls (snd (perform c k)) = create_calls c @ es" ..
  from Cons.IH [of "snd (perform c k)"] obtain es'
    where "create_calls (run (snd (perform c k)) ks) = create_calls (snd (perform c k)) @ es'" ..
  with es show ?case by simp
qed

text \<open>
  Claim C8. A \<^verbatim>\<open>create\<close> call that succeeds appends one entry to the call log,
  holding the messages, tools, json_output, extra_create_args and cancellation_token of
  the call (\<^verbatim>\<open>tool_choice\<close> is not recorded); a \<^verbatim>\<open>create\<close> call that fails
  leaves the log as it was; a \<^verbatim>\<open>create_stream\<close> call, consumed to its end or
  failing, leaves the log as it was; and after any sequence of requests the log starts
  with the entries it had before.
\<close>

theorem call_log_append_only:
  "(\<forall>r. fst (create c a) = Inr r \<longrightarrow>
      create_calls (fst (snd (create c a))) =
        create_calls c @
          [\<lparr>log_messages = arg_messages a, log_tools = arg_tools a,
            log_json_output = arg_json_output a,
            log_extra_create_args = arg_extra_create_args a,
            log_cancellation_token = arg_cancellation_token a\<rparr>])
   \<and> (\<forall>e. fst (create c a) = Inl e \<longrightarrow> create_calls (fst (snd (create c a))) = create_calls c)
   \<and> create_calls (fst (snd (create_stream c a))) = create_calls c
   \<and> take (length (create_calls c)) (create_calls (run c ks)) = create_calls c"
proof -
  have ok: "create_calls (fst (snd (create c a))) = create_calls c @ [entry_of a]"
    if "fst (create c a) = Inr r" for r
  proof -
    from that create_exhausted [of c a]
    have lt: "current_index c < length (chat_completions c)"
      by (cases "current_index c < length (chat_completions c)") auto
    then show ?thesis
      using create_Text(2) [of c _ a] create_Prebuilt(2) [of c _ a]
      by (cases "chat_completions c ! current_index c") simp_all
  qed
  have failed: "create_calls (fst (snd (create c a))) = create_calls c"
    if "fst (create c a) = Inl e" for e
    using create_failure [OF that] by simp
  have stream: "create_calls (fst (snd (create_stream c a))) = create_calls c"
  proof (cases "current_index c < length (chat_completions c)")
    case True
    then show ?thesis
      using create_stream_Text(2) [of c _ a] create_stream_Prebuilt(2) [of c _ a]
      by (cases "chat_completions c ! current_index c") simp_all
  next
    case False
    then show ?thesis using create_stream_exhausted [of c a] by simp
  qed
  have kept: "take (length (create_calls c)) (create_calls (run c ks)) = create_calls c"
    using run_create_calls [of c ks] by auto
  from ok failed stream kept show ?thesis
    by (simp add: entry_of_def)
qed

theorem call_log_append_only_witness:
  "fst (create (new_client [Text ''Hello there'', Text ''Bye''] default_model_info)
        (default_args [user_message ''a b c'']))
     = Inr \<lparr>finish_reason = ''stop'', content = Str ''Hello there'',
            usage = \<lparr>prompt_tokens = 3, completion_tokens = 2\<rparr>, cached = True\<rparr>
   \<and> create_calls (fst (snd (create (new_client [Text ''Hello there'', Text ''Bye''] default_model_info)
        (default_args [user_message ''a b c'']))))
     = [\<lparr>log_messages = [user_message ''a b c''], log_tools = [], log_json_output = None,
         log_extra_create_args = Map.empty, log_cancellation_token = None\<rparr>]
   \<and> fst (create (new_client [] default_model_info) (default_args [user_message ''a b c'']))
     = Inl (ValueError ''No more mock responses available'')
   \<and> create_calls (fst (snd (create (new_client [] default_model_info)
        (default_args [user_message ''a b c''])))) = []
   \<and> create_calls (fst (snd (create_stream (new_client [Text ''Hello there'', Text ''Bye''] default_model_info)
        (default_args [user_message ''a b c'']))))
     = []"
  using call_log_append_only
      [of "new_client [Text ''Hello there'', Text ''Bye''] default_model_info"
          "default_args [user_message ''a b c'']" "[]"]
    call_log_append_only
      [of "new_client [] default_model_info" "default_args [user_message ''a b c'']" "[]"]
    create_Text(1)
      [of "new_client [Text ''Hello there'', Text ''Bye''] default_model_info" "''Hello there''"
          "default_args [user_message ''a b c'']"]
    create_exhausted [of "new_client [] default_model_info" "default_args [user_message ''a b c'']"]
  by (simp add: new_client_def default_args_def split_Hello_there prompt_count_a_b_c [unfolded default_args_def]
        exhausted_def)

section \<open>Tokenization of messages\<close>

lemma length_str_contents: "length (str_contents ms) \<le> length ms"
  by (induction ms) (auto split: content.splits)

lemma str_contents_append: "str_contents (ms @ ms') = str_contents ms @ str_contents ms'"
  by (induction ms) (auto split: content.splits)

lemma tokenize_loop_closed:
  "tokenize_loop ms (all_tokens, total_tokens, warnings) =
     (all_tokens @ concat (map split (str_contents ms)),
      total_tokens + (\<Sum>s\<leftarrow>str_contents ms. int (length (split s))),
      warnings @ replicate (length ms - length (str_contents ms)) content_warning)"
proof (induction ms arbitrary: all_tokens total_tokens warnings)
  case Nil
  show ?case by simp
next
  case (Cons m ms)
  show ?case
  proof (cases "msg_content m")
    case (Str s)
    then show ?thesis by (simp add: Cons.IH Let_def)
  next
    case (NonStr x)
    have "Suc (length ms) - length (str_contents ms) = Suc (length ms - length (str_contents ms))"
      using length_str_contents [of ms] by simp
    with NonStr show ?thesis
      by (simp add: Cons.IH replicate_app_Cons_same)
  qed
qed

text \<open>
  Claim C9. \<^verbatim>\<open>_tokenize\<close> does not fail on a message whose content is not a
  string: for the message alone it returns no token, the count 0 and one warning, and
  inside a sequence the message adds nothing to the tokens or to the count. For any
  sequence of messages the tokens and the count are those of the string contents of the
  sequence, in order, and one warning is logged for each message whose content is not
  a string.
\<close>

theorem tokenize_skips_non_string_content:
  "(\<forall>x. msg_content m = NonStr x \<longrightarrow>
      tokenize (OfMessage m) = ([], 0, [content_warning])
      \<and> tokenize (OfSequence [m]) = ([], 0, [content_warning])
      \<and> fst (tokenize (OfSequence (ms @ m # ms'))) = fst (tokenize (OfSequence (ms @ ms')))
      \<and> fst (snd (tokenize (OfSequence (ms @ m # ms')))) =
          fst (snd (tokenize (OfSequence (ms @ ms')))))
   \<and> tokenize (OfSequence messages) =
       (concat (map split (str_contents messages)),
        (\<Sum>s\<leftarrow>str_contents messages. int (length (split s))),
        replicate (length messages - length (str_contents messages)) content_warning)"
proof -
  have skip: "str_contents (ms @ m # ms') = str_contents (ms @ ms')"
    if "msg_content m = NonStr x" for x
    using that by (simp add: str_contents_append)
  show ?thesis
    using skip by (auto simp: tokenize_loop_closed)
qed

theorem tokenize_skips_non_string_content_witness:
  "msg_content \<lparr>msg_content = NonStr (PyObject 0)\<rparr> = NonStr (PyObject 0)
   \<and> tokenize (OfMessage \<lparr>msg_content = NonStr (PyObject 0)\<rparr>) = ([], 0, [content_warning])
   \<and> tokenize (OfSequence
         [user_message ''a b'', \<lparr>msg_content = NonStr (PyObject 0)\<rparr>, user_message ''c''])
       = ([''a'', ''b'', ''c''], 3, [content_warning])
   \<and> fst (snd (tokenize (OfSequence [user_message ''a b'', user_message ''c'']))) = 3"
  using tokenize_skips_non_string_content
    [of "\<lparr>msg_content = NonStr (PyObject 0)\<rparr>" "[user_message ''a b'']" "[user_message ''c'']"
        "[user_message ''a b'', \<lparr>msg_content = NonStr (PyObject 0)\<rparr>, user_message ''c'']"]
  by (simp add: user_message_def split_def isspace_def)

section \<open>Streaming a raw-text entry\<close>

lemma stream_chunks_from:
  "ws \<noteq> [] \<Longrightarrow> int k + int (length ws) = n \<Longrightarrow>
   map (\<lambda>(i, token). if int i < n - 1 then token @ '' '' else token) (enumerate k ws) =
     map (\<lambda>token. token @ '' '') (butlast ws) @ [last ws]"
proof (induction ws arbitrary: k)
  case Nil
  then show ?case by simp
next
  case (Cons w ws)
  show ?case
  proof (cases "ws = []")
    case True
    with Cons.prems show ?thesis by simp
  next
    case False
    with Cons.prems have "int k < n - 1" by (cases ws) auto
    with False Cons.prems Cons.IH [of "Suc k"] show ?thesis by simp
  qed
qed

lemma stream_chunks_closed:
  "stream_chunks ws =
     (if ws = [] then [] else map (\<lambda>token. token @ '' '') (butlast ws) @ [last ws])"
  using stream_chunks_from [of ws 0 "int (length ws)"]
  by (simp add: stream_chunks_def)

lemma concat_stream_chunks: "concat (stream_chunks ws) = join_spaces ws"
proof (induction ws rule: join_spaces.induct)
  case 1
  show ?case by (simp add: stream_chunks_closed)
next
  case (2 w)
  show ?case by (simp add: stream_chunks_closed)
next
  case (3 w v ws)
  then show ?case by (simp add: stream_chunks_closed)
qed

lemma split_from_word:
  "\<forall>ch\<in>set w. \<not> isspace ch \<Longrightarrow> split_from (w @ s) word = split_from s (word @ w)"
  by (induction w arbitrary: word) simp_all

lemma isspace_space: "isspace CHR '' ''"
  by (simp add: isspace_def)

lemma split_join_spaces:
  "\<forall>w\<in>set ws. w \<noteq> [] \<and> (\<forall>ch\<in>set w. \<not> isspace ch) \<Longrightarrow> split (join_spaces ws) = ws"
proof (induction ws rule: join_spaces.induct)
  case 1
  show ?case by (simp add: split_def)
next
  case (2 w)
  then show ?case using split_from_word [of w "[]" "[]"] by (simp add: split_def)
next
  case (3 w v ws)
  then have "split (join_spaces (v # ws)) = v # ws" by simp
  moreover have "split_from (w @ CHR '' '' # join_spaces (v # ws)) [] =
      split_from (CHR '' '' # join_spaces (v # ws)) w"
    using 3 split_from_word [of w "CHR '' '' # join_spaces (v # ws)" "[]"] by simp
  ultimately show ?case using 3 by (simp add: split_def isspace_space)
qed


lemma chunks_of_stream: "chunks_of (map Chunk xs @ [Final r]) = xs"
  by (induction xs) simp_all

lemma split_a__b: "split ''a  b'' = [''a'', ''b'']"
  by (simp add: split_def isspace_def)

lemma prompt_count_hi: "prompt_count (default_args [user_message ''hi'']) = 1"
  by (simp add: prompt_count_def default_args_def user_message_def split_def isspace_def)

lemma split_from_pieces:
  "\<forall>ch\<in>set word. \<not> isspace ch \<Longrightarrow>
   \<forall>w\<in>set (split_from s word). w \<noteq> [] \<and> (\<forall>ch\<in>set w. \<not> isspace ch)"
proof (induction s arbitrary: word)
  case Nil
  then show ?case by simp
next
  case (Cons ch s)
  show ?case
  proof (cases "isspace ch")
    case True
    with Cons.prems Cons.IH [of "[]"] show ?thesis by simp
  next
    case False
    with Cons.prems Cons.IH [of "word @ [ch]"] show ?thesis by simp
  qed
qed

lemma split_pieces: "\<forall>w\<in>set (split s). w \<noteq> [] \<and> (\<forall>ch\<in>set w. \<not> isspace ch)"
  using split_from_pieces [of "[]" s] by (simp add: split_def)

lemma join_spaces_Nil: "join_spaces ws = [] \<Longrightarrow> \<forall>w\<in>set ws. w \<noteq> [] \<Longrightarrow> ws = []"
  by (induction ws rule: join_spaces.induct) simp_all

lemma join_spaces_hd:
  "\<forall>w\<in>set ws. w \<noteq> [] \<and> (\<forall>ch\<in>set w. \<not> isspace ch) \<Longrightarrow> ws \<noteq> [] \<Longrightarrow>
   join_spaces ws \<noteq> [] \<and> \<not> isspace (hd (join_spaces ws))"
  by (induction ws rule: join_spaces.induct) simp_all

lemma join_spaces_last:
  "\<forall>w\<in>set ws. w \<noteq> [] \<and> (\<forall>ch\<in>set w. \<not> isspace ch) \<Longrightarrow> ws \<noteq> [] \<Longrightarrow>
   \<not> isspace (last (join_spaces ws))"
proof (induction ws rule: join_spaces.induct)
  case 1
  then show ?case by simp
next
  case (2 w)
  then show ?case by simp
next
  case (3 w v ws)
  then have "join_spaces (v # ws) \<noteq> []" using join_spaces_hd [of "v # ws"] by simp
  with 3 show ?case by simp
qed

lemma join_spaces_only_spaces:
  "\<forall>w\<in>set ws. w \<noteq> [] \<and> (\<forall>ch\<in>set w. \<not> isspace ch) \<Longrightarrow>
   ch \<in> set (join_spaces ws) \<Longrightarrow> isspace ch \<Longrightarrow> ch = CHR '' ''"
  by (induction ws rule: join_spaces.induct) auto

lemma word_then_rest_no_pair:
  assumes "\<forall>ch\<in>set w. \<not> isspace ch"
    and "rest \<noteq> []" and "\<not> isspace (hd rest)"
    and "\<And>u x y v. rest = u @ x # y # v \<Longrightarrow> \<not> (isspace x \<and> isspace y)"
    and "w @ CHR '' '' # rest = u @ x # y # v"
  shows "\<not> (isspace x \<and> isspace y)"
  using assms(1,5)
proof (induction w arbitrary: u)
  case Nil
  show ?case
  proof (cases u)
    case Nil
    with Nil.prems(2) assms(2,3) show ?thesis by (cases rest) auto
  next
    case (Cons z u')
    with Nil.prems(2) have "rest = u' @ x # y # v" by simp
    then show ?thesis by (rule assms(4))
  qed
next
  case (Cons c w)
  show ?case
  proof (cases u)
    case Nil
    with Cons.prems show ?thesis by auto
  next
    case (Cons z u')
    with Cons.prems(2) have "w @ CHR '' '' # rest = u' @ x # y # v" by simp
    with Cons.IH [of u'] Cons.prems(1) show ?thesis by simp
  qed
qed

lemma word_no_pair:
  "\<forall>ch\<in>set w. \<not> isspace ch \<Longrightarrow> w = u @ x # y # v \<Longrightarrow> \<not> (isspace x \<and> isspace y)"
  by auto

lemma join_spaces_no_pair:
  "\<forall>w\<in>set ws. w \<noteq> [] \<and> (\<forall>ch\<in>set w. \<not> isspace ch) \<Longrightarrow>
   join_spaces ws = u @ x # y # v \<Longrightarrow> \<not> (isspace x \<and> isspace y)"
proof (induction ws arbitrary: u x y v rule: join_spaces.induct)
  case 1
  then show ?case by simp
next
  case (2 w)
  then show ?case using word_no_pair [of w u x y v] by simp
next
  case (3 w v' ws)
  have words: "\<forall>w\<in>set (v' # ws). w \<noteq> [] \<and> (\<forall>ch\<in>set w. \<not> isspace ch)"
    using "3.prems"(1) by simp
  have w: "\<forall>ch\<in>set w. \<not> isspace ch" using "3.prems"(1) by simp
  have rest: "join_spaces (v' # ws) \<noteq> [] \<and> \<not> isspace (hd (join_spaces (v' # ws)))"
    using join_spaces_hd [OF words] by simp
  have inner: "\<And>u x y v. join_spaces (v' # ws) = u @ x # y # v \<Longrightarrow> \<not> (isspace x \<and> isspace y)"
    using "3.IH" [OF words] by blast
  have "w @ CHR '' '' # join_spaces (v' # ws) = u @ x # y # v"
    using "3.prems"(2) by simp
  from word_then_rest_no_pair [OF w conjunct1 [OF rest] conjunct2 [OF rest] inner this]
  show ?case .
qed

text \<open>
  Claim C2, as the code has it. For a raw-text entry at the cursor the stream of
  \<^verbatim>\<open>create_stream\<close> is the whitespace-split pieces of the text (each of them
  non-empty and free of whitespace), each followed by one space except the last, then
  exactly one result record, whose content is the original text. The concatenation of
  the fragments is the pieces joined by single spaces. It is the original text if and
  only if the text is a sequence of non-empty words without whitespace joined by single
  spaces; in particular it is not the original text when the text begins or ends with
  whitespace, has two whitespace characters in a row, or has a whitespace character
  other than the space.
\<close>

theorem create_stream_text_entry:
  assumes "current_index c < length (chat_completions c)"
    and "chat_completions c ! current_index c = Text s"
  shows "fst (create_stream c a) =
           Inr (map Chunk (stream_chunks (split s)) @
                [Final \<lparr>finish_reason = ''stop'', content = Str s,
                  usage = \<lparr>prompt_tokens = prompt_count a,
                            completion_tokens = int (length (split s))\<rparr>,
                  cached = cached_bool_value c\<rparr>])
       \<and> stream_chunks (split s) =
           (if split s = [] then []
            else map (\<lambda>token. token @ '' '') (butlast (split s)) @ [last (split s)])
       \<and> (\<forall>w\<in>set (split s). w \<noteq> [] \<and> (\<forall>ch\<in>set w. \<not> isspace ch))
       \<and> concat (stream_chunks (split s)) = join_spaces (split s)
       \<and> (concat (stream_chunks (split s)) = s \<longleftrightarrow>
            (\<exists>ws. s = join_spaces ws \<and> (\<forall>w\<in>set ws. w \<noteq> [] \<and> (\<forall>ch\<in>set w. \<not> isspace ch))))
       \<and> (s \<noteq> [] \<and> isspace (hd s) \<longrightarrow> concat (stream_chunks (split s)) \<noteq> s)
       \<and> (s \<noteq> [] \<and> isspace (last s) \<longrightarrow> concat (stream_chunks (split s)) \<noteq> s)
       \<and> ((\<exists>u x y v. s = u @ x # y # v \<and> isspace x \<and> isspace y) \<longrightarrow>
            concat (stream_chunks (split s)) \<noteq> s)
       \<and> ((\<exists>ch\<in>set s. isspace ch \<and> ch \<noteq> CHR '' '') \<longrightarrow>
            concat (stream_chunks (split s)) \<noteq> s)"
proof -
  let ?out = "concat (stream_chunks (split s))"
  note pieces = split_pieces [of s]
  have joined: "?out = join_spaces (split s)"
    by (rule concat_stream_chunks)
  have "if": "?out = s"
    if "s = join_spaces ws" and "\<forall>w\<in>set ws. w \<noteq> [] \<and> (\<forall>ch\<in>set w. \<not> isspace ch)" for ws
    using that split_join_spaces [of ws] by (simp add: concat_stream_chunks)
  have only_if: "\<exists>ws. s = join_spaces ws \<and> (\<forall>w\<in>set ws. w \<noteq> [] \<and> (\<forall>ch\<in>set w. \<not> isspace ch))"
    if "?out = s"
  proof -
    from that joined have "s = join_spaces (split s)" by simp
    with pieces show ?thesis by blast
  qed
  have iff: "?out = s \<longleftrightarrow>
      (\<exists>ws. s = join_spaces ws \<and> (\<forall>w\<in>set ws. w \<noteq> [] \<and> (\<forall>ch\<in>set w. \<not> isspace ch)))"
    using "if" only_if by blast
  have leading: "?out \<noteq> s" if "s \<noteq> [] \<and> isspace (hd s)"
  proof
    assume eq: "?out = s"
    with joined have js: "join_spaces (split s) = s" by simp
    with that have "split s \<noteq> []" by auto
    from join_spaces_hd [OF pieces this] js that show False by simp
  qed
  have trailing: "?out \<noteq> s" if "s \<noteq> [] \<and> isspace (last s)"
  proof
    assume eq: "?out = s"
    with joined have js: "join_spaces (split s) = s" by simp
    with that have "split s \<noteq> []" by auto
    from join_spaces_last [OF pieces this] js that show False by simp
  qed
  have repeated: "?out \<noteq> s" if "\<exists>u x y v. s = u @ x # y # v \<and> isspace x \<and> isspace y"
  proof
    assume eq: "?out = s"
    with joined have js: "join_spaces (split s) = s" by simp
    from that obtain u x y v where "s = u @ x # y # v" and xy: "isspace x \<and> isspace y" by blast
    with js have "join_spaces (split s) = u @ x # y # v" by simp
    from join_spaces_no_pair [OF pieces this] xy show False by simp
  qed
  have other: "?out \<noteq> s" if "\<exists>ch\<in>set s. isspace ch \<and> ch \<noteq> CHR '' ''"
  proof
    assume eq: "?out = s"
    with joined have js: "join_spaces (split s) = s" by simp
    from that obtain ch where "ch \<in> set s" and ch: "isspace ch" "ch \<noteq> CHR '' ''" by blast
    with js have "ch \<in> set (join_spaces (split s))" by simp
    from join_spaces_only_spaces [OF pieces this ch(1)] ch(2) show False by simp
  qed
  from create_stream_Text(1) [OF assms, of a] stream_chunks_closed [of "split s"]
    pieces joined iff leading trailing repeated other
  show ?thesis by (intro conjI impI) assumption+
qed

theorem create_stream_text_entry_witness:
  "current_index (new_client [Text ''Hello there'', Text '' a''] default_model_info)
     < length (chat_completions (new_client [Text ''Hello there'', Text '' a''] default_model_info))
   \<and> chat_completions (new_client [Text ''Hello there'', Text '' a''] default_model_info)
       ! current_index (new_client [Text ''Hello there'', Text '' a''] default_model_info)
     = Text ''Hello there''
   \<and> fst (create_stream (new_client [Text ''Hello there'', Text '' a''] default_model_info)
          (default_args [user_message ''hi'']))
     = Inr [Chunk ''Hello '', Chunk ''there'',
            Final \<lparr>finish_reason = ''stop'', content = Str ''Hello there'',
                   usage = \<lparr>prompt_tokens = 1, completion_tokens = 2\<rparr>, cached = True\<rparr>]
   \<and> ''Hello there'' = join_spaces [''Hello'', ''there'']
   \<and> concat (stream_chunks (split ''Hello there'')) = ''Hello there''
   \<and> chat_completions (fst (snd (create_stream
          (new_client [Text ''Hello there'', Text '' a''] default_model_info)
          (default_args [user_message ''hi'']))))
       ! current_index (fst (snd (create_stream
          (new_client [Text ''Hello there'', Text '' a''] default_model_info)
          (default_args [user_message ''hi'']))))
     = Text '' a''
   \<and> isspace (hd '' a'')
   \<and> concat (stream_chunks (split '' a'')) \<noteq> '' a''"
proof -
  let ?c = "new_client [Text ''Hello there'', Text '' a''] default_model_info"
  let ?a = "default_args [user_message ''hi'']"
  let ?c' = "fst (snd (create_stream ?c ?a))"
  have h1: "current_index ?c < length (chat_completions ?c)" by (simp add: new_client_def)
  have h2: "chat_completions ?c ! current_index ?c = Text ''Hello there''"
    by (simp add: new_client_def)
  note first = create_stream_text_entry [OF h1 h2, of ?a]
  have words: "''Hello there'' = join_spaces [''Hello'', ''there'']" by simp
  from first have stream: "fst (create_stream ?c ?a) =
      Inr [Chunk ''Hello '', Chunk ''there'',
           Final \<lparr>finish_reason = ''stop'', content = Str ''Hello there'',
                  usage = \<lparr>prompt_tokens = 1, completion_tokens = 2\<rparr>, cached = True\<rparr>]"
    by (simp add: new_client_def split_Hello_there prompt_count_hi stream_chunks_closed)
  have same: "concat (stream_chunks (split ''Hello there'')) = ''Hello there''"
    by (simp add: split_Hello_there stream_chunks_closed)
  have next_state: "current_index ?c' = 1 \<and> chat_completions ?c' = [Text ''Hello there'', Text '' a'']"
    using create_stream_Text(2) [OF h1 h2, of ?a] by (simp add: new_client_def)
  then have h1': "current_index ?c' < length (chat_completions ?c')"
    and h2': "chat_completions ?c' ! current_index ?c' = Text '' a''"
    by simp_all
  have lead: "isspace (hd '' a'')" by (simp add: isspace_def)
  have nonempty: "'' a'' \<noteq> []" by simp
  from create_stream_text_entry [OF h1' h2', of ?a] nonempty lead
  have differs: "concat (stream_chunks (split '' a'')) \<noteq> '' a''" by blast
  from h1 h2 stream words same h2' lead differs show ?thesis by (intro conjI)
qed

text \<open>
  The concatenation is not the original text in general: the text \<^verbatim>\<open>"a  b"\<close>,
  with two spaces, is streamed as \<^verbatim>\<open>"a "\<close> and \<^verbatim>\<open>"b"\<close>.
\<close>

theorem create_stream_text_entry_counterexample:
  "fst (create_stream (new_client [Text ''a  b''] default_model_info)
          (default_args [user_message ''hi'']))
     = Inr [Chunk ''a '', Chunk ''b'',
            Final \<lparr>finish_reason = ''stop'', content = Str ''a  b'',
                   usage = \<lparr>prompt_tokens = 1, completion_tokens = 2\<rparr>, cached = True\<rparr>]
   \<and> concat (chunks_of [Chunk ''a '', Chunk ''b'',
            Final \<lparr>finish_reason = ''stop'', content = Str ''a  b'',
                   usage = \<lparr>prompt_tokens = 1, completion_tokens = 2\<rparr>, cached = True\<rparr>])
       \<noteq> ''a  b''"
  using create_stream_Text(1)
    [of "new_client [Text ''a  b''] default_model_info" "''a  b''" "default_args [user_message ''hi'']"]
  by (simp add: new_client_def split_a__b prompt_count_hi stream_chunks_closed)

section \<open>Serving the canned responses in order\<close>

lemma results_of_stream: "results_of (map Chunk xs @ items) = results_of items"
  by (induction xs) simp_all

lemma perform_exhausted:
  "length (chat_completions c) \<le> current_index c \<Longrightarrow> perform c k = (Inl exhausted, c)"
  using create_exhausted [of c] create_stream_exhausted [of c]
  by (cases k) simp_all

lemma perform_serves:
  assumes "current_index c < length (chat_completions c)"
  shows "contents_of (fst (perform c k)) =
           Inr [entry_content (chat_completions c ! current_index c)]"
    and "current_index (snd (perform c k)) = Suc (current_index c)"
    and "chat_completions (snd (perform c k)) = chat_completions c"
    and "cached_bool_value (snd (perform c k)) = cached_bool_value c"
    and "model_info (snd (perform c k)) = model_info c"
proof -
  show "contents_of (fst (perform c k)) =
           Inr [entry_content (chat_completions c ! current_index c)]"
  proof (cases "chat_completions c ! current_index c")
    case (Text s)
    with assms create_Text(1) [of c s] create_stream_Text(1) [of c s] show ?thesis
      by (cases k) (simp_all add: results_of_stream)
  next
    case (Prebuilt r)
    with assms create_Prebuilt(1) [of c r] create_stream_Prebuilt(1) [of c r] show ?thesis
      by (cases k) simp_all
  qed
  have "current_index (snd (perform c k)) = Suc (current_index c)
      \<and> chat_completions (snd (perform c k)) = chat_completions c
      \<and> cached_bool_value (snd (perform c k)) = cached_bool_value c
      \<and> model_info (snd (perform c k)) = model_info c"
  proof (cases "chat_completions c ! current_index c")
    case (Text s)
    with assms create_Text(2) [of c s] create_stream_Text(2) [of c s] show ?thesis
      by (cases k) simp_all
  next
    case (Prebuilt r)
    with assms create_Prebuilt(2) [of c r] create_stream_Prebuilt(2) [of c r] show ?thesis
      by (cases k) simp_all
  qed
  then show "current_index (snd (perform c k)) = Suc (current_index c)"
    and "chat_completions (snd (perform c k)) = chat_completions c"
    and "cached_bool_value (snd (perform c k)) = cached_bool_value c"
    and "model_info (snd (perform c k)) = model_info c"
    by simp_all
qed

lemma outcomes_Cons: "outcomes c (k # ks) = fst (perform c k) # outcomes (snd (perform c k)) ks"
  by (simp add: outcomes_def split: prod.splits)

lemma run_append: "run c (ks @ js) = run (run c ks) js"
  by (induction ks arbitrary: c) simp_all

lemma run_serves:
  "current_index c + length ks \<le> length (chat_completions c) \<Longrightarrow>
   map contents_of (outcomes c ks) =
     map (\<lambda>e. Inr [entry_content e]) (take (length ks) (drop (current_index c) (chat_completions c)))
   \<and> current_index (run c ks) = current_index c + length ks
   \<and> chat_completions (run c ks) = chat_completions c"
proof (induction ks arbitrary: c)
  case Nil
  show ?case by (simp add: outcomes_def)
next
  case (Cons k ks)
  let ?c' = "snd (perform c k)"
  from Cons.prems have lt: "current_index c < length (chat_completions c)" by simp
  note step = perform_serves [OF lt, of k]
  from Cons.prems step have "current_index ?c' + length ks \<le> length (chat_completions ?c')"
    by simp
  from Cons.IH [OF this] step lt show ?case
    by (simp add: outcomes_Cons Cons_nth_drop_Suc [symmetric])
qed

lemma cursor_bounded:
  "current_index c \<le> length (chat_completions c) \<Longrightarrow>
   \<forall>s\<in>set (map snd (trace c ks)).
     current_index s \<le> length (chat_completions c) \<and> chat_completions s = chat_completions c"
proof (induction ks arbitrary: c)
  case Nil
  show ?case by simp
next
  case (Cons k ks)
  let ?c' = "snd (perform c k)"
  have step: "current_index ?c' \<le> length (chat_completions c)
      \<and> chat_completions ?c' = chat_completions c"
  proof (cases "current_index c < length (chat_completions c)")
    case True
    then show ?thesis using perform_serves(2,3) [OF True, of k] by simp
  next
    case False
    with Cons.prems show ?thesis using perform_exhausted [of c k] by simp
  qed
  with Cons.IH [of ?c'] show ?case
    by (simp split: prod.splits) (metis snd_conv)
qed

lemma served_not_failed:
  "map contents_of rs = map (\<lambda>e. Inr [entry_content e]) es \<Longrightarrow> \<forall>r\<in>set rs. \<not> isl r"
proof (induction rs arbitrary: es)
  case Nil
  show ?case by simp
next
  case (Cons r rs)
  then obtain e es' where es: "es = e # es'" by (cases es) auto
  with Cons.prems have head: "contents_of r = Inr [entry_content e]"
    and tail: "map contents_of rs = map (\<lambda>e. Inr [entry_content e]) es'"
    by simp_all
  from head have "\<not> isl r" by (cases r) simp_all
  with Cons.IH [OF tail] show ?case by simp
qed

text \<open>
  Claim C3. On a client with the cursor at 0 and \<open>N\<close> canned responses, as the
  constructor and \<^verbatim>\<open>reset()\<close> leave it, any \<open>N\<close> requests (calls of
  \<^verbatim>\<open>create\<close> or fully consumed streams, in any mix) all succeed, the i-th
  returning the content of the i-th entry; the cursor is then \<open>N\<close>, and one more
  request raises \<^verbatim>\<open>ValueError("No more mock responses available")\<close> and
  leaves the client as it was. After any sequence of requests the cursor is at most
  \<open>N\<close>. After \<^verbatim>\<open>reset()\<close> any \<open>N\<close> requests succeed again and return the
  same contents as the first pass.
\<close>

theorem first_N_requests_then_exhausted:
  assumes "current_index c = 0"
    and "length ks = length (chat_completions c)"
    and "length ks' = length (chat_completions c)"
  shows "map contents_of (outcomes c ks) =
           map (\<lambda>e. Inr [entry_content e]) (chat_completions c)
       \<and> (\<forall>r\<in>set (outcomes c ks). \<not> isl r)
       \<and> current_index (run c ks) = length (chat_completions c)
       \<and> perform (run c ks) k =
           (Inl (ValueError ''No more mock responses available''), run c ks)
       \<and> (\<forall>s\<in>set (map snd (trace c js)). current_index s \<le> length (chat_completions c))
       \<and> (\<forall>r\<in>set (outcomes (reset (run c (ks @ [k]))) ks'). \<not> isl r)
       \<and> map contents_of (outcomes (reset (run c (ks @ [k]))) ks') =
           map contents_of (outcomes c ks)"
proof -
  have fits: "current_index c + length ks \<le> length (chat_completions c)"
    using assms(1,2) by simp
  have whole: "take (length ks) (drop (current_index c) (chat_completions c)) = chat_completions c"
    using assms(1,2) by simp
  note pass1 = run_serves [OF fits, unfolded whole]
  have first: "map contents_of (outcomes c ks) =
      map (\<lambda>e. Inr [entry_content e]) (chat_completions c)"
    using pass1 by (rule conjunct1)
  have cursor: "current_index (run c ks) = length (chat_completions c)"
    using pass1 assms(1,2) by simp
  have same: "chat_completions (run c ks) = chat_completions c"
    using pass1 by simp
  have "length (chat_completions (run c ks)) \<le> current_index (run c ks)"
    using cursor same by simp
  then have fails: "perform (run c ks) k = (Inl exhausted, run c ks)"
    by (rule perform_exhausted)
  have after_fail: "run c (ks @ [k]) = run c ks"
    using fails by (simp add: run_append)
  have "current_index c \<le> length (chat_completions c)"
    using assms(1) by simp
  then have bound: "\<forall>s\<in>set (map snd (trace c js)).
      current_index s \<le> length (chat_completions c) \<and> chat_completions s = chat_completions c"
    by (rule cursor_bounded)
  have bound': "\<forall>s\<in>set (map snd (trace c js)). current_index s \<le> length (chat_completions c)"
  proof
    fix s assume "s \<in> set (map snd (trace c js))"
    with bound show "current_index s \<le> length (chat_completions c)" by blast
  qed
  let ?c2 = "reset (run c ks)"
  have idx2: "current_index ?c2 = 0" by (simp add: reset_def)
  have cs2: "chat_completions ?c2 = chat_completions c" using same by (simp add: reset_def)
  have fits2: "current_index ?c2 + length ks' \<le> length (chat_completions ?c2)"
    using idx2 cs2 assms(3) by simp
  have whole2: "take (length ks') (drop (current_index ?c2) (chat_completions ?c2)) = chat_completions c"
    using idx2 cs2 assms(3) by simp
  have second: "map contents_of (outcomes ?c2 ks') =
      map (\<lambda>e. Inr [entry_content e]) (chat_completions c)"
    using run_serves [OF fits2, unfolded whole2] by (rule conjunct1)
  have again: "map contents_of (outcomes ?c2 ks') = map contents_of (outcomes c ks)"
    using first second by simp
  note ok1 = served_not_failed [OF first]
  note ok2 = served_not_failed [OF second]
  show ?thesis
    unfolding after_fail exhausted_def [symmetric]
    using first ok1 cursor fails bound' ok2 again
    by (intro conjI)
qed


theorem first_N_requests_then_exhausted_witness:
  "current_index (new_client [Text ''Hello there'', Text ''Bye''] default_model_info) = 0
   \<and> length [Create (default_args [user_message ''a b c'']),
               CreateStream (default_args [user_message ''a b c''])]
       = length (chat_completions (new_client [Text ''Hello there'', Text ''Bye''] default_model_info))
   \<and> length [CreateStream (default_args [user_message ''hi'']),
               Create (default_args [user_message ''hi''])]
       = length (chat_completions (new_client [Text ''Hello there'', Text ''Bye''] default_model_info))
   \<and> map contents_of (outcomes (new_client [Text ''Hello there'', Text ''Bye''] default_model_info)
         [Create (default_args [user_message ''a b c'']),
          CreateStream (default_args [user_message ''a b c''])])
       = [Inr [Str ''Hello there''], Inr [Str ''Bye'']]
   \<and> fst (perform (run (new_client [Text ''Hello there'', Text ''Bye''] default_model_info)
         [Create (default_args [user_message ''a b c'']),
          CreateStream (default_args [user_message ''a b c''])])
         (Create (default_args [user_message ''a b c''])))
       = Inl (ValueError ''No more mock responses available'')
   \<and> map contents_of (outcomes
         (reset (run (new_client [Text ''Hello there'', Text ''Bye''] default_model_info)
           ([Create (default_args [user_message ''a b c'']),
             CreateStream (default_args [user_message ''a b c''])]
            @ [Create (default_args [user_message ''a b c''])])))
         [CreateStream (default_args [user_message ''hi'']),
          Create (default_args [user_message ''hi''])])
       = [Inr [Str ''Hello there''], Inr [Str ''Bye'']]"
proof -
  let ?c = "new_client [Text ''Hello there'', Text ''Bye''] default_model_info"
  let ?ks = "[Create (default_args [user_message ''a b c'']),
              CreateStream (default_args [user_message ''a b c''])]"
  let ?ks' = "[CreateStream (default_args [user_message ''hi'']),
               Create (default_args [user_message ''hi''])]"
  let ?k = "Create (default_args [user_message ''a b c''])"
  have h1: "current_index ?c = 0" by (simp add: new_client_def)
  have h2: "length ?ks = length (chat_completions ?c)" by (simp add: new_client_def)
  have h3: "length ?ks' = length (chat_completions ?c)" by (simp add: new_client_def)
  have cs: "map (\<lambda>e. Inr [entry_content e]) (chat_completions ?c) =
      ([Inr [Str ''Hello there''], Inr [Str ''Bye'']] :: (error + content list) list)"
    by (simp add: new_client_def)
  note inst = first_N_requests_then_exhausted [OF h1 h2 h3, of ?k "[]", unfolded cs]
  from inst have a: "map contents_of (outcomes ?c ?ks) = [Inr [Str ''Hello there''], Inr [Str ''Bye'']]"
    by (rule conjunct1)
  from inst have b: "perform (run ?c ?ks) ?k =
      (Inl (ValueError ''No more mock responses available''), run ?c ?ks)"
    by blast
  from inst have d: "map contents_of (outcomes (reset (run ?c (?ks @ [?k]))) ?ks') =
      map contents_of (outcomes ?c ?ks)"
    by blast
  from b have b': "fst (perform (run ?c ?ks) ?k) = Inl (ValueError ''No more mock responses available'')"
    by (simp only: fst_conv)
  from d a have d': "map contents_of (outcomes (reset (run ?c (?ks @ [?k]))) ?ks') =
      [Inr [Str ''Hello there''], Inr [Str ''Bye'']]"
    by (simp only:)
  from h1 h2 h3 a b' d' show ?thesis by (intro conjI)
qed

section \<open>Additivity of the usage counters\<close>

lemma perform_total_usage:
  "total_usage (snd (perform c k)) =
     (case fst (perform c k) of
        Inl e \<Rightarrow> total_usage c
      | Inr r \<Rightarrow>
          \<lparr>prompt_tokens =
             prompt_tokens (total_usage c) + prompt_tokens (actual_usage (snd (perform c k))),
           completion_tokens =
             completion_tokens (total_usage c)
               + completion_tokens (actual_usage (snd (perform c k)))\<rparr>)"
proof (cases "current_index c < length (chat_completions c)")
  case True
  show ?thesis
  proof (cases "chat_completions c ! current_index c")
    case (Text s)
    with True create_Text [of c s] create_stream_Text [of c s] show ?thesis
      by (cases k) (simp_all add: actual_usage_def)
  next
    case (Prebuilt r)
    with True create_Prebuilt [of c r] create_stream_Prebuilt [of c r] show ?thesis
      by (cases k) (simp_all add: actual_usage_def)
  qed
next
  case False
  then show ?thesis using perform_exhausted [of c k] by simp
qed

lemma usage_snapshots_Cons:
  "usage_snapshots c (k # ks) =
     (case fst (perform c k) of
        Inl e \<Rightarrow> usage_snapshots (snd (perform c k)) ks
      | Inr r \<Rightarrow> actual_usage (snd (perform c k)) # usage_snapshots (snd (perform c k)) ks)"
  by (cases "perform c k") (simp split: sum.splits)

lemma run_total_usage:
  "total_usage (run c ks) =
     \<lparr>prompt_tokens =
        prompt_tokens (total_usage c) + (\<Sum>u\<leftarrow>usage_snapshots c ks. prompt_tokens u),
      completion_tokens =
        completion_tokens (total_usage c) + (\<Sum>u\<leftarrow>usage_snapshots c ks. completion_tokens u)\<rparr>"
proof (induction ks arbitrary: c)
  case Nil
  show ?case by simp
next
  case (Cons k ks)
  let ?c' = "snd (perform c k)"
  have step: "total_usage (run c (k # ks)) =
     \<lparr>prompt_tokens =
        prompt_tokens (total_usage ?c') + (\<Sum>u\<leftarrow>usage_snapshots ?c' ks. prompt_tokens u),
      completion_tokens =
        completion_tokens (total_usage ?c')
          + (\<Sum>u\<leftarrow>usage_snapshots ?c' ks. completion_tokens u)\<rparr>"
    using Cons.IH [of ?c'] by simp
  show ?case
  proof (cases "fst (perform c k)")
    case (Inl e)
    with perform_total_usage [of c k] have "total_usage ?c' = total_usage c" by simp
    with Inl show ?thesis
      by (simp only: step usage_snapshots_Cons sum.case)
  next
    case (Inr r)
    with perform_total_usage [of c k] have
      "prompt_tokens (total_usage ?c') =
         prompt_tokens (total_usage c) + prompt_tokens (actual_usage ?c')"
      "completion_tokens (total_usage ?c') =
         completion_tokens (total_usage c) + completion_tokens (actual_usage ?c')"
      by simp_all
    with Inr show ?thesis
      by (simp only: step usage_snapshots_Cons sum.case list.map sum_list.Cons add.assoc)
  qed
qed

lemma hello_bye_snapshots:
  "usage_snapshots (new_client [Text ''Hello there'', Text ''Bye''] default_model_info)
     [Create (default_args [user_message ''a b c'']),
      CreateStream (default_args [user_message ''a b c'']),
      Create (default_args [user_message ''a b c''])] =
   [\<lparr>prompt_tokens = 3, completion_tokens = 2\<rparr>, \<lparr>prompt_tokens = 3, completion_tokens = 1\<rparr>]"
  by (simp add: create_def create_stream_def new_client_def default_args_def user_message_def
        split_def isspace_def update_total_usage_def actual_usage_def Let_def)

text \<open>
  Claim C4. Starting right after \<^verbatim>\<open>reset()\<close>, or right after construction,
  and for every sequence of requests (calls of \<^verbatim>\<open>create\<close> and fully consumed
  streams), \<^verbatim>\<open>total_usage()\<close> after the sequence is the sum, prompt tokens and
  completion tokens separately, of the values \<^verbatim>\<open>actual_usage()\<close> had right after
  each request that completed. A request that fails changes neither counter and
  contributes no value.
\<close>

theorem total_usage_is_sum_of_snapshots:
  "total_usage (run (reset c) ks) =
     \<lparr>prompt_tokens = (\<Sum>u\<leftarrow>usage_snapshots (reset c) ks. prompt_tokens u),
      completion_tokens = (\<Sum>u\<leftarrow>usage_snapshots (reset c) ks. completion_tokens u)\<rparr>
   \<and> total_usage (run (new_client completions info) ks) =
     \<lparr>prompt_tokens = (\<Sum>u\<leftarrow>usage_snapshots (new_client completions info) ks. prompt_tokens u),
      completion_tokens =
        (\<Sum>u\<leftarrow>usage_snapshots (new_client completions info) ks. completion_tokens u)\<rparr>"
  using run_total_usage [of "reset c" ks] run_total_usage [of "new_client completions info" ks]
  by (simp add: reset_def new_client_def)

theorem total_usage_is_sum_of_snapshots_witness:
  "usage_snapshots (new_client [Text ''Hello there'', Text ''Bye''] default_model_info)
     [Create (default_args [user_message ''a b c'']),
      CreateStream (default_args [user_message ''a b c'']),
      Create (default_args [user_message ''a b c''])] =
   [\<lparr>prompt_tokens = 3, completion_tokens = 2\<rparr>, \<lparr>prompt_tokens = 3, completion_tokens = 1\<rparr>]
   \<and> total_usage (run (new_client [Text ''Hello there'', Text ''Bye''] default_model_info)
     [Create (default_args [user_message ''a b c'']),
      CreateStream (default_args [user_message ''a b c'']),
      Create (default_args [user_message ''a b c''])]) =
   \<lparr>prompt_tokens = 6, completion_tokens = 3\<rparr>"
  using total_usage_is_sum_of_snapshots
    [of "new_client [] default_model_info"
        "[Create (default_args [user_message ''a b c'']),
          CreateStream (default_args [user_message ''a b c'']),
          Create (default_args [user_message ''a b c''])]"
        "[Text ''Hello there'', Text ''Bye'']" default_model_info]
  unfolding hello_bye_snapshots
  by (simp add: hello_bye_snapshots)

section \<open>Configuration round trip\<close>

text \<open>
  The constructor validates a model info it is given and not the default one; the
  operations on a client change neither the list of canned responses nor the model
  info. So the model info of a client passes the validation again when the default
  one does, whatever the validation is, and the default one passes the validation
  modelled here.
\<close>

lemma init_validated:
  "init validate completions (Some info) = Inr c \<Longrightarrow> validate (model_info c) = None"
  by (auto simp: init_def new_client_def split: option.splits)

lemma init_client:
  "init validate completions supplied = Inr c \<Longrightarrow>
   c = new_client completions (case supplied of Some info \<Rightarrow> info | None \<Rightarrow> default_model_info)"
  by (auto simp: init_def split: option.splits)

lemma perform_frame:
  "chat_completions (snd (perform c k)) = chat_completions c
   \<and> model_info (snd (perform c k)) = model_info c"
proof (cases "current_index c < length (chat_completions c)")
  case True
  then show ?thesis using perform_serves(3,5) [of c k] by simp
next
  case False
  then show ?thesis using perform_exhausted [of c k] by simp
qed

lemma act_frame:
  "chat_completions (act c x) = chat_completions c \<and> model_info (act c x) = model_info c"
  using perform_frame by (cases x) (simp_all add: reset_def set_cached_bool_value_def)

lemma acts_frame:
  "chat_completions (acts c xs) = chat_completions c \<and> model_info (acts c xs) = model_info c"
  by (induction xs arbitrary: c) (simp_all add: act_frame)

lemma from_config_accepted:
  "validate (model_info c) = None \<Longrightarrow>
   from_config validate (to_config c) = Inr (new_client (chat_completions c) (model_info c))"
  by (simp add: from_config_def to_config_def init_def)

lemma validate_default_model_info: "validate_model_info default_model_info = None"
  by (simp add: validate_model_info_def default_model_info_def)

lemma round_trip_any_validation:
  assumes "init validate completions supplied = Inr c0"
    and "validate default_model_info = None"
  shows "from_config validate (to_config (acts c0 xs)) =
           Inr (new_client completions (model_info c0))"
proof -
  have accepted: "validate (model_info c0) = None"
  proof (cases supplied)
    case None
    with init_client [OF assms(1)] have "model_info c0 = default_model_info"
      by (simp add: new_client_def)
    with assms(2) show ?thesis by simp
  next
    case (Some info)
    with assms(1) show ?thesis using init_validated [of validate completions info c0] by simp
  qed
  have "chat_completions c0 = completions"
    using init_client [OF assms(1)] by (simp add: new_client_def)
  with accepted acts_frame [of c0 xs] from_config_accepted [of validate "acts c0 xs"]
  show ?thesis by simp
qed

lemma init_rejects_missing_key:
  "init validate_model_info completions
     (Some \<lparr>vision = Some True, function_calling = Some False, json_output = Some True,
            family = None, structured_output = Some False\<rparr>) = Inl ValidationError"
  by (simp add: init_def validate_model_info_def)

text \<open>
  Claim C5. For every client that the constructor has built, on a supplied model info
  or on the default one, and after any requests, resets and changes of the cached
  flag, \<^verbatim>\<open>_from_config(_to_config())\<close> gives a client with the list of canned
  responses and the model info of the original, the cursor at 0, both usage counters
  zero, the cached flag at its default and an empty call log, whatever the cursor,
  the counters, the flag and the call log of the original are.
\<close>

theorem config_round_trip:
  assumes "init validate_model_info completions supplied = Inr c0"
  shows "from_config validate_model_info (to_config (acts c0 xs)) =
           Inr \<lparr>chat_completions = chat_completions (acts c0 xs),
                provided_message_count = length (chat_completions (acts c0 xs)),
                model_info = model_info (acts c0 xs),
                total_available_tokens = 10000,
                cur_usage = \<lparr>prompt_tokens = 0, completion_tokens = 0\<rparr>,
                total_usage = \<lparr>prompt_tokens = 0, completion_tokens = 0\<rparr>,
                current_index = 0,
                cached_bool_value = True,
                create_calls = []\<rparr>
       \<and> chat_completions (acts c0 xs) = completions
       \<and> model_info (acts c0 xs) =
           (case supplied of Some info \<Rightarrow> info | None \<Rightarrow> default_model_info)"
proof -
  have frame: "chat_completions (acts c0 xs) = completions"
    "model_info (acts c0 xs) =
       (case supplied of Some info \<Rightarrow> info | None \<Rightarrow> default_model_info)"
    using acts_frame [of c0 xs] init_client [OF assms] by (simp_all add: new_client_def)
  have "from_config validate_model_info (to_config (acts c0 xs)) =
      Inr (new_client completions (model_info c0))"
    using assms validate_default_model_info by (rule round_trip_any_validation)
  with frame acts_frame [of c0 xs] show ?thesis by (simp add: new_client_def)
qed

theorem config_round_trip_witness:
  "init validate_model_info [Text ''Hello there'', Text ''Bye''] None
     = Inr (new_client [Text ''Hello there'', Text ''Bye''] default_model_info)
   \<and> current_index (acts (new_client [Text ''Hello there'', Text ''Bye''] default_model_info)
        [Request (Create (default_args [user_message ''a b c''])),
         Request (Create (default_args [user_message ''a b c''])),
         SetCachedBoolValue False]) = 2
   \<and> from_config validate_model_info
        (to_config (acts (new_client [Text ''Hello there'', Text ''Bye''] default_model_info)
          [Request (Create (default_args [user_message ''a b c''])),
           Request (Create (default_args [user_message ''a b c''])),
           SetCachedBoolValue False]))
       = Inr (new_client [Text ''Hello there'', Text ''Bye''] default_model_info)
   \<and> init validate_model_info [Text ''Bye'']
        (Some \<lparr>vision = Some True, function_calling = Some False, json_output = Some True,
               family = Some (Family ''replay''), structured_output = Some False\<rparr>)
     = Inr (new_client [Text ''Bye'']
         \<lparr>vision = Some True, function_calling = Some False, json_output = Some True,
          family = Some (Family ''replay''), structured_output = Some False\<rparr>)
   \<and> from_config validate_model_info
        (to_config (acts (new_client [Text ''Bye'']
            \<lparr>vision = Some True, function_calling = Some False, json_output = Some True,
             family = Some (Family ''replay''), structured_output = Some False\<rparr>)
          [Request (CreateStream (default_args [user_message ''hi''])), Reset]))
       = Inr (new_client [Text ''Bye'']
           \<lparr>vision = Some True, function_calling = Some False, json_output = Some True,
            family = Some (Family ''replay''), structured_output = Some False\<rparr>)"
proof -
  let ?a = "default_args [user_message ''a b c'']"
  let ?c0 = "new_client [Text ''Hello there'', Text ''Bye''] default_model_info"
  let ?xs = "[Request (Create ?a), Request (Create ?a), SetCachedBoolValue False]"
  let ?info = "\<lparr>vision = Some True, function_calling = Some False, json_output = Some True,
      family = Some (Family ''replay''), structured_output = Some False\<rparr>"
  let ?c1 = "new_client [Text ''Bye''] ?info"
  let ?ys = "[Request (CreateStream (default_args [user_message ''hi''])), Reset]"
  have built0: "init validate_model_info [Text ''Hello there'', Text ''Bye''] None = Inr ?c0"
    by (simp add: init_def)
  have built1: "init validate_model_info [Text ''Bye''] (Some ?info) = Inr ?c1"
    by (simp add: init_def validate_model_info_def)
  have "acts ?c0 ?xs = set_cached_bool_value (run ?c0 [Create ?a, Create ?a]) False"
    by simp
  then have cursor: "current_index (acts ?c0 ?xs) = 2"
    by (simp only: hello_bye_twice set_cached_bool_value_def) simp
  from config_round_trip [OF built0, of ?xs]
  have trip0: "from_config validate_model_info (to_config (acts ?c0 ?xs)) = Inr ?c0"
    by (simp add: new_client_def)
  from config_round_trip [OF built1, of ?ys]
  have trip1: "from_config validate_model_info (to_config (acts ?c1 ?ys)) = Inr ?c1"
    by (simp add: new_client_def)
  from built0 cursor trip0 built1 trip1 show ?thesis by (intro conjI)
qed

end
